theory Spec2Isabelle
  imports Complex_Main "HOL-Library.Sublist"
begin

section \<open>The API client (lib/api.ts)\<close>

text \<open>
  A JavaScript value that is thrown, or that a promise rejects with: an \<open>Error\<close> object
  with its message, or anything else. The handlers of the client branch on
  \<open>error instanceof Error\<close>.
\<close>

datatype thrown = Error string | NonError

definition message_or :: "string \<Rightarrow> thrown \<Rightarrow> string" where
  "message_or dflt e = (case e of Error m \<Rightarrow> m | NonError \<Rightarrow> dflt)"

text \<open>Decimal digits of a number, as a template literal prints \<open>response.status\<close>.\<close>

definition digit_char :: "nat \<Rightarrow> char" where
  "digit_char d = char_of (48 + d)"

function string_of_nat :: "nat \<Rightarrow> string" where
  "string_of_nat n =
     (if n < 10 then [digit_char n] else string_of_nat (n div 10) @ [digit_char (n mod 10)])"
  by pat_completeness auto
termination
  by (relation "measure id") auto

declare string_of_nat.simps [simp del]

record VoiceProcessResponse =
  success :: bool
  transcribed_text :: "string option"
  intent :: "string option"
  response :: string
  audio_url :: "string option"
  processing_time :: int
  confidence :: "string option"
  safety_status :: "string option"
  processing_steps :: "string option"
  node_timings :: "string option"
  error :: "string option"

record StreamEvent =
  type :: string
  node :: "string option"
  progress :: "nat option"
  result :: "VoiceProcessResponse option"
  error :: "string option"
  timestamp :: string

text \<open>
  What one \<open>reader.read()\<close> settles to, and a body as the sequence of its reads: the
  \<open>n\<close>-th read of a reader \<open>rd\<close> gives \<open>rd n\<close>. A body may deliver chunks forever.
\<close>

datatype read_result = Chunk string | Done | ReadRejects thrown

type_synonym reader = "nat \<Rightarrow> read_result"

record Response =
  status :: nat
  statusText :: string
  body :: "reader option"

text \<open>\<open>response.ok\<close> is the Fetch API's getter: the status is in the range 200 to 299.\<close>

definition ok :: "Response \<Rightarrow> bool" where
  "ok r = (200 \<le> status r \<and> status r \<le> 299)"

text \<open>
  What one \<open>fetch\<close> settles to: it rejects on a network failure and resolves with a
  response otherwise. The network is the environment: the \<open>n\<close>-th call of \<open>fetch\<close> made by
  one invocation of the client settles to \<open>net n\<close>.
\<close>

datatype fetch_result = Rejects thrown | Resolves Response

type_synonym network = "nat \<Rightarrow> fetch_result"

subsection \<open>fetchWithRetry\<close>

text \<open>
  How the \<open>try\<close> block of one loop iteration ends: it returns the response, it throws (the
  rejection of \<open>fetch\<close>, or one of the two errors the block constructs), or it runs to its
  end after the backoff sleep. Both \<open>throw\<close> statements stand inside the \<open>try\<close>.
\<close>

datatype try_result = Return Response | Throw thrown | Slept

definition try_block :: "fetch_result \<Rightarrow> nat \<Rightarrow> nat \<Rightarrow> try_result" where
  "try_block settled i retries =
     (case settled of
        Rejects e \<Rightarrow> Throw e
      | Resolves resp \<Rightarrow>
          if ok resp then Return resp
          else if 400 \<le> status resp \<and> status resp < 500 then
            Throw (Error (''Client error: '' @ string_of_nat (status resp) @ '' '' @
                     statusText resp))
          else if i = retries - 1 then
            Throw (Error (''Server error: '' @ string_of_nat (status resp) @ '' '' @
                     statusText resp))
          else Slept)"

text \<open>
  The result of a call: what the promise settles to (\<open>Inl\<close> is a rejection), the number
  of \<open>fetch\<close> calls issued, and the backoff sleeps in milliseconds, in order.
\<close>

record retry_run =
  outcome :: "thrown + Response"
  fetches :: nat
  sleeps :: "nat list"

text \<open>
  The \<open>for\<close> loop from index \<open>i\<close>. Every iteration issues one \<open>fetch\<close>, so \<open>i\<close> fetches
  have been issued when iteration \<open>i\<close> starts. The \<open>catch\<close> rethrows on the last iteration
  and otherwise sleeps and lets the loop continue, whatever was thrown.
\<close>

function fetchWithRetry_loop :: "network \<Rightarrow> nat \<Rightarrow> nat \<Rightarrow> nat list \<Rightarrow> retry_run" where
  "fetchWithRetry_loop net retries i slept =
     (if i < retries then
        (case try_block (net i) i retries of
           Return resp \<Rightarrow> \<lparr>outcome = Inr resp, fetches = Suc i, sleeps = slept\<rparr>
         | Slept \<Rightarrow> fetchWithRetry_loop net retries (Suc i) (slept @ [2 ^ i * 1000])
         | Throw e \<Rightarrow>
             if i = retries - 1 then \<lparr>outcome = Inl e, fetches = Suc i, sleeps = slept\<rparr>
             else fetchWithRetry_loop net retries (Suc i) (slept @ [2 ^ i * 1000]))
      else \<lparr>outcome = Inl (Error ''Max retries exceeded''), fetches = i, sleeps = slept\<rparr>)"
  by pat_completeness auto
termination
  by (relation "measure (\<lambda>(net, retries, i, slept). retries - i)") auto

declare fetchWithRetry_loop.simps [simp del]

definition fetchWithRetry :: "network \<Rightarrow> nat \<Rightarrow> retry_run" where
  "fetchWithRetry net retries = fetchWithRetry_loop net retries 0 []"

text \<open>A server that answers 404 to the first request and 200 to every later one.\<close>

definition not_found_then_ok :: network where
  "not_found_then_ok n =
     (if n = 0 then Resolves \<lparr>status = 404, statusText = ''Not Found'', body = None\<rparr>
      else Resolves \<lparr>status = 200, statusText = ''OK'', body = None\<rparr>)"

subsection \<open>processText\<close>

text \<open>\<open>try { body } catch (error) { handler }\<close> on settled values.\<close>

definition try_catch :: "thrown + 'a \<Rightarrow> (thrown \<Rightarrow> thrown + 'a) \<Rightarrow> thrown + 'a" where
  "try_catch block handler = (case block of Inl e \<Rightarrow> handler e | Inr v \<Rightarrow> Inr v)"

text \<open>
  A JSON value, as \<open>response.json()\<close> resolves it. An object is the list of its own
  properties, each key once, as \<open>JSON.parse\<close> leaves it.
\<close>

datatype json =
    JNull
  | JBool bool
  | JNumber rat
  | JString string
  | JArray "json list"
  | JObject "(string \<times> json) list"

definition is_boolean :: "json \<Rightarrow> bool" where
  "is_boolean v = (case v of JBool b \<Rightarrow> True | _ \<Rightarrow> False)"

definition is_number :: "json \<Rightarrow> bool" where
  "is_number v = (case v of JNumber n \<Rightarrow> True | _ \<Rightarrow> False)"

definition is_string :: "json \<Rightarrow> bool" where
  "is_string v = (case v of JString t \<Rightarrow> True | _ \<Rightarrow> False)"

definition is_array :: "json \<Rightarrow> bool" where
  "is_array v = (case v of JArray vs \<Rightarrow> True | _ \<Rightarrow> False)"

definition is_number_record :: "json \<Rightarrow> bool" where
  "is_number_record v =
     (case v of JObject props \<Rightarrow> list_all (\<lambda>kv. is_number (snd kv)) props | _ \<Rightarrow> False)"

definition required :: "(json \<Rightarrow> bool) \<Rightarrow> json option \<Rightarrow> bool" where
  "required P prop = (case prop of None \<Rightarrow> False | Some v \<Rightarrow> P v)"

definition optional :: "(json \<Rightarrow> bool) \<Rightarrow> json option \<Rightarrow> bool" where
  "optional P prop = (case prop of None \<Rightarrow> True | Some v \<Rightarrow> P v)"

definition property :: "string \<Rightarrow> json \<Rightarrow> json option" where
  "property name v = (case v of JObject props \<Rightarrow> map_of props name | _ \<Rightarrow> None)"

text \<open>
  A value that has the shape of the interface \<open>VoiceProcessResponse\<close>: an object whose
  \<open>success\<close>, \<open>response\<close> and \<open>processing_time\<close> are present with their types and whose
  optional properties, where present, have theirs. TypeScript erases the interface: nothing
  at run time checks it.
\<close>

definition is_VoiceProcessResponse :: "json \<Rightarrow> bool" where
  "is_VoiceProcessResponse v =
     (case v of
        JObject props \<Rightarrow>
          required is_boolean (map_of props ''success'')
          \<and> optional is_string (map_of props ''transcribed_text'')
          \<and> optional is_string (map_of props ''intent'')
          \<and> required is_string (map_of props ''response'')
          \<and> optional is_string (map_of props ''audio_url'')
          \<and> required is_number (map_of props ''processing_time'')
          \<and> optional is_number (map_of props ''confidence'')
          \<and> optional is_string (map_of props ''safety_status'')
          \<and> optional is_array (map_of props ''processing_steps'')
          \<and> optional is_number_record (map_of props ''node_timings'')
          \<and> optional is_string (map_of props ''error'')
      | _ \<Rightarrow> False)"

text \<open>The object literal that the \<open>catch\<close> of \<open>processText\<close> returns.\<close>

definition failure_response :: "thrown \<Rightarrow> json" where
  "failure_response e =
     JObject [(''success'', JBool False),
              (''response'', JString []),
              (''processing_time'', JNumber 0),
              (''error'', JString (message_or ''Unknown error occurred'' e))]"

text \<open>
  \<open>processText\<close>: \<open>json\<close> is \<open>response.json()\<close>, which rejects when the body is not JSON
  and otherwise resolves the value of the body, whatever it is. The source returns that
  value as it comes: the return type \<open>Promise<VoiceProcessResponse>\<close> is a cast, not a check.
  The call uses the default of three retries.
\<close>

definition processText :: "network \<Rightarrow> (Response \<Rightarrow> thrown + json) \<Rightarrow> thrown + json" where
  "processText net json =
     try_catch
       (case outcome (fetchWithRetry net 3) of
          Inl e \<Rightarrow> Inl e
        | Inr resp \<Rightarrow> json resp)
       (\<lambda>e. Inr (failure_response e))"

text \<open>
  Stand-ins for concrete runs: a network on which every \<open>fetch\<close> fails and one on which
  every \<open>fetch\<close> is answered 200; a body that is not JSON, a body that is the JSON of a
  successful response, and the body \<open>null\<close>.
\<close>

definition unreachable :: network where
  "unreachable n = Rejects (Error ''Failed to fetch'')"

definition always_ok :: network where
  "always_ok n = Resolves \<lparr>status = 200, statusText = ''OK'', body = None\<rparr>"

definition not_json :: "Response \<Rightarrow> thrown + json" where
  "not_json resp = Inl (Error ''Unexpected end of JSON input'')"

definition answer_json :: "Response \<Rightarrow> thrown + json" where
  "answer_json resp =
     Inr (JObject [(''success'', JBool True),
                   (''response'', JString ''ok''),
                   (''processing_time'', JNumber 12)])"

definition null_json :: "Response \<Rightarrow> thrown + json" where
  "null_json resp = Inr JNull"

subsection \<open>streamTextProcessing\<close>

text \<open>\<open>chunk.split('\n')\<close>: the pieces between line feeds; one more piece than line feeds.\<close>

fun split_lines :: "string \<Rightarrow> string list" where
  "split_lines [] = [[]]"
| "split_lines (c # cs) =
     (if c = CHR 0x0A then [] # split_lines cs
      else (case split_lines cs of
              [] \<Rightarrow> [[c]]
            | l # ls \<Rightarrow> (c # l) # ls))"

text \<open>
  What the caller sees of a run: the events \<open>onEvent\<close> was called with, in call order, and
  the console lines. The callback belongs to the caller and may throw: \<open>onEvent ev\<close> is
  \<open>None\<close> when the call returns and \<open>Some e\<close> when it throws \<open>e\<close>.
\<close>

record stream_run =
  delivered :: "StreamEvent list"
  console :: "string list"

text \<open>
  One line of a chunk. The inner \<open>try\<close> holds both \<open>JSON.parse\<close> and the call of
  \<open>onEvent\<close>, so what either throws is caught and logged as a parse failure.
  \<open>JSON_parse\<close> is the browser's parser, \<open>None\<close> when it throws; its value is cast to
  \<open>StreamEvent\<close> unchecked.
\<close>

definition process_line ::
  "(string \<Rightarrow> StreamEvent option) \<Rightarrow> (StreamEvent \<Rightarrow> thrown option) \<Rightarrow> stream_run \<Rightarrow> string \<Rightarrow> stream_run" where
  "process_line JSON_parse onEvent st line =
     (if prefix ''data: '' line then
        (case JSON_parse (drop 6 line) of
           None \<Rightarrow> st\<lparr>console := console st @ [''Failed to parse SSE data: '' @ line]\<rparr>
         | Some eventData \<Rightarrow>
             (case onEvent eventData of
                None \<Rightarrow> st\<lparr>delivered := delivered st @ [eventData]\<rparr>
              | Some e \<Rightarrow>
                  st\<lparr>delivered := delivered st @ [eventData],
                     console := console st @ [''Failed to parse SSE data: '' @ line]\<rparr>))
      else st)"

text \<open>
  The \<open>while (true)\<close> loop from read \<open>i\<close>. It ends when a read reports \<open>done\<close> (nothing
  thrown) or rejects (the rejection is thrown); on a body that delivers chunks forever it
  never ends, which is the value \<open>None\<close>.
\<close>

partial_function (option) read_loop ::
  "(string \<Rightarrow> StreamEvent option) \<Rightarrow> (StreamEvent \<Rightarrow> thrown option) \<Rightarrow> reader \<Rightarrow> nat \<Rightarrow> stream_run
     \<Rightarrow> (thrown option \<times> stream_run) option" where
  "read_loop JSON_parse onEvent rd i st =
     (case rd i of
        Done \<Rightarrow> Some (None, st)
      | ReadRejects e \<Rightarrow> Some (Some e, st)
      | Chunk chunk \<Rightarrow>
          read_loop JSON_parse onEvent rd (Suc i)
            (foldl (process_line JSON_parse onEvent) st (split_lines chunk)))"

definition error_event :: "thrown \<Rightarrow> string \<Rightarrow> StreamEvent" where
  "error_event e now =
     \<lparr>type = ''error'', node = None, progress = None, result = None,
      error = Some (message_or ''Streaming failed'' e), timestamp = now\<rparr>"

text \<open>
  The outer \<open>try\<close> block: the fetch, the status check, the reader and the loop. It gives
  what was thrown, if anything, and the run so far.
\<close>

definition stream_try ::
  "fetch_result \<Rightarrow> (string \<Rightarrow> StreamEvent option) \<Rightarrow> (StreamEvent \<Rightarrow> thrown option)
     \<Rightarrow> (thrown option \<times> stream_run) option" where
  "stream_try settled JSON_parse onEvent =
     (let st0 = \<lparr>delivered = [], console = []\<rparr> in
      case settled of
        Rejects e \<Rightarrow> Some (Some e, st0)
      | Resolves resp \<Rightarrow>
          if \<not> ok resp then
            Some (Some (Error (''Streaming failed: '' @ string_of_nat (status resp))), st0)
          else (case body resp of
                  None \<Rightarrow> Some (Some (Error ''No response body reader''), st0)
                | Some rd \<Rightarrow> read_loop JSON_parse onEvent rd 0 st0))"

text \<open>
  \<open>streamTextProcessing\<close>: the outer \<open>catch\<close> logs and calls \<open>onEvent\<close> with an error
  event stamped \<open>now\<close>; that call stands outside every \<open>try\<close>, so what it throws rejects the
  promise. The result is \<open>None\<close> when the promise never settles, and otherwise what it
  rejects with (\<open>None\<close> when it resolves) and the run.
\<close>

definition streamTextProcessing ::
  "fetch_result \<Rightarrow> (string \<Rightarrow> StreamEvent option) \<Rightarrow> (StreamEvent \<Rightarrow> thrown option) \<Rightarrow> string
     \<Rightarrow> (thrown option \<times> stream_run) option" where
  "streamTextProcessing settled JSON_parse onEvent now =
     (case stream_try settled JSON_parse onEvent of
        None \<Rightarrow> None
      | Some (None, st) \<Rightarrow> Some (None, st)
      | Some (Some e, st) \<Rightarrow>
          Some (onEvent (error_event e now),
                st\<lparr>delivered := delivered st @ [error_event e now],
                   console := console st @ [''Streaming error: '' @ message_or [] e]\<rparr>))"

text \<open>Stand-ins for concrete runs: a callback that always throws, one that never does.\<close>

definition throwing_callback :: "StreamEvent \<Rightarrow> thrown option" where
  "throwing_callback ev = Some (Error ''callback failed'')"

definition quiet_callback :: "StreamEvent \<Rightarrow> thrown option" where
  "quiet_callback ev = None"

text \<open>
  Stand-ins for concrete runs: a parser that reads one of three bare words as an event of
  that type and throws on anything else, a body that delivers one chunk of three lines and
  then ends, and one that delivers the same chunk and then fails.
\<close>

definition bare_event :: "string \<Rightarrow> StreamEvent" where
  "bare_event t =
     \<lparr>type = t, node = None, progress = None, result = None, error = None, timestamp = []\<rparr>"

definition word_parse :: "string \<Rightarrow> StreamEvent option" where
  "word_parse s =
     (if s = ''start'' \<or> s = ''complete'' \<or> s = ''error'' then Some (bare_event s) else None)"

definition three_lines :: string where
  "three_lines = ''data: start'' @ [CHR 0x0A] @ ''data: oops'' @ [CHR 0x0A] @ ''data: complete''"

definition chunk_then_done :: reader where
  "chunk_then_done n = (if n = 0 then Chunk three_lines else Done)"

definition chunk_then_reset :: reader where
  "chunk_then_reset n = (if n = 0 then Chunk three_lines else ReadRejects (Error ''network error''))"

section \<open>The telemetry hook (useTelemetry)\<close>

text \<open>
  The hook keeps three pieces of React state (\<open>events\<close>, \<open>connected\<close>, \<open>error\<close>) and three
  refs (the socket, the reconnect counter, the last timer id). The browser is the
  environment: it decides when a socket opens, closes, errors or delivers a message, when a
  pending timer fires, and whether constructing a socket throws. Each of these is an action,
  and every handler of the source is a function from hook state to hook state.
\<close>

record TelemetryEvent =
  type :: string
  payload :: string
  timestamp :: string

record UseTelemetryOptions =
  autoConnect :: bool
  reconnectInterval :: nat
  maxReconnectAttempts :: nat

definition default_options :: UseTelemetryOptions where
  "default_options = \<lparr>autoConnect = True, reconnectInterval = 3000, maxReconnectAttempts = 5\<rparr>"

record hook =
  events :: "TelemetryEvent list"
  connected :: bool
  error :: "string option"
  wsRef :: "nat option"
  reconnectAttemptsRef :: nat
  reconnectTimeoutRef :: "nat option"
  timers :: "nat list"
  next_timer :: nat
  scheduled :: "nat list"
  sockets :: nat
  reconnects :: nat

text \<open>
  \<open>wsRef\<close> holds the number of the socket last constructed (\<open>None\<close> is JavaScript's null).
  \<open>timers\<close> are the ids of the timers that are pending, \<open>scheduled\<close> logs the delay of every
  \<open>setTimeout\<close> call in call order, \<open>sockets\<close> counts the sockets constructed and
  \<open>reconnects\<close> counts the calls of \<open>connect\<close> made by a reconnect timer. Timer ids start at
  1, as in a browser, so a stored id is always truthy.
\<close>

definition init_hook :: hook where
  "init_hook = \<lparr>events = [], connected = False, error = None, wsRef = None,
     reconnectAttemptsRef = 0, reconnectTimeoutRef = None, timers = [], next_timer = 1,
     scheduled = [], sockets = 0, reconnects = 0\<rparr>"

text \<open>\<open>xs.slice(-n)\<close>: the last \<open>n\<close> elements, all of them when there are fewer.\<close>

definition slice_neg :: "nat \<Rightarrow> 'a list \<Rightarrow> 'a list" where
  "slice_neg n xs = drop (length xs - n) xs"

text \<open>The state updater handed to \<open>setEvents\<close>.\<close>

definition appendEvent :: "TelemetryEvent list \<Rightarrow> TelemetryEvent \<Rightarrow> TelemetryEvent list" where
  "appendEvent prev data = (let newEvents = prev @ [data] in slice_neg 100 newEvents)"

text \<open>
  \<open>ws.onmessage\<close>. \<open>JSON_parse\<close> is the browser's parser followed by the read of
  \<open>data.type\<close>: \<open>None\<close> when either throws, which the handler's \<open>catch\<close> logs and drops.
\<close>

definition onmessage :: "(string \<Rightarrow> TelemetryEvent option) \<Rightarrow> hook \<Rightarrow> string \<Rightarrow> hook" where
  "onmessage JSON_parse st msg =
     (case JSON_parse msg of
        None \<Rightarrow> st
      | Some data \<Rightarrow>
          if type data = ''heartbeat'' then st
          else st\<lparr>events := appendEvent (events st) data\<rparr>)"

definition onopen :: "hook \<Rightarrow> hook" where
  "onopen st = st\<lparr>connected := True, error := None, reconnectAttemptsRef := 0\<rparr>"

definition onerror :: "hook \<Rightarrow> hook" where
  "onerror st = st\<lparr>error := Some ''WebSocket connection error''\<rparr>"

text \<open>\<open>setTimeout(f, delay)\<close>: a fresh id, a new pending timer, and the delay logged.\<close>

definition setTimeout :: "nat \<Rightarrow> hook \<Rightarrow> hook" where
  "setTimeout delay st =
     st\<lparr>reconnectTimeoutRef := Some (next_timer st),
        timers := timers st @ [next_timer st],
        next_timer := Suc (next_timer st),
        scheduled := scheduled st @ [delay]\<rparr>"

definition onclose :: "UseTelemetryOptions \<Rightarrow> hook \<Rightarrow> hook" where
  "onclose opts st =
     (let st1 = st\<lparr>connected := False, wsRef := None\<rparr> in
      if reconnectAttemptsRef st1 < maxReconnectAttempts opts then
        setTimeout (reconnectInterval opts)
          (st1\<lparr>reconnectAttemptsRef := Suc (reconnectAttemptsRef st1)\<rparr>)
      else st1\<lparr>error := Some ''Max reconnection attempts reached''\<rparr>)"

text \<open>
  \<open>connect\<close>: \<open>constructed\<close> says whether \<open>new WebSocket\<close> returns; when it throws, the \<open>catch\<close> sets
  the error and nothing is scheduled.
\<close>

definition connect :: "bool \<Rightarrow> hook \<Rightarrow> hook" where
  "connect constructed st =
     (if constructed then st\<lparr>wsRef := Some (sockets st), sockets := Suc (sockets st)\<rparr>
      else st\<lparr>error := Some ''Failed to connect to telemetry service''\<rparr>)"

definition disconnect :: "hook \<Rightarrow> hook" where
  "disconnect st =
     (let st1 = (case reconnectTimeoutRef st of
                   None \<Rightarrow> st
                 | Some t \<Rightarrow> st\<lparr>timers := removeAll t (timers st)\<rparr>)
      in st1\<lparr>wsRef := None, connected := False\<rparr>)"

definition clearEvents :: "hook \<Rightarrow> hook" where
  "clearEvents st = st\<lparr>events := []\<rparr>"

datatype action =
    CallConnect bool
  | TimerFires nat bool
  | WsOpen
  | WsClose
  | WsError
  | WsMessage string
  | CallDisconnect
  | CallClearEvents

text \<open>
  One action of the environment. A timer fires only while it is pending; it is then
  consumed and its callback calls \<open>connect\<close>.
\<close>

fun step :: "UseTelemetryOptions \<Rightarrow> (string \<Rightarrow> TelemetryEvent option) \<Rightarrow> hook \<Rightarrow> action \<Rightarrow> hook" where
  "step opts JSON_parse st (CallConnect constructed) = connect constructed st"
| "step opts JSON_parse st (TimerFires t constructed) =
     (if t \<in> set (timers st)
      then connect constructed (st\<lparr>timers := removeAll t (timers st), reconnects := Suc (reconnects st)\<rparr>)
      else st)"
| "step opts JSON_parse st WsOpen = onopen st"
| "step opts JSON_parse st WsClose = onclose opts st"
| "step opts JSON_parse st WsError = onerror st"
| "step opts JSON_parse st (WsMessage msg) = onmessage JSON_parse st msg"
| "step opts JSON_parse st CallDisconnect = disconnect st"
| "step opts JSON_parse st CallClearEvents = clearEvents st"

definition run_hook :: "UseTelemetryOptions \<Rightarrow> (string \<Rightarrow> TelemetryEvent option) \<Rightarrow> hook \<Rightarrow> action list \<Rightarrow> hook" where
  "run_hook opts JSON_parse st acts = foldl (step opts JSON_parse) st acts"

text \<open>The application events of a message sequence: what parses and is not a heartbeat.\<close>

definition application_events :: "(string \<Rightarrow> TelemetryEvent option) \<Rightarrow> string list \<Rightarrow> TelemetryEvent list" where
  "application_events JSON_parse msgs =
     filter (\<lambda>data. type data \<noteq> ''heartbeat'') (List.map_filter JSON_parse msgs)"

text \<open>A stand-in parser for concrete runs: it reads the message text as the event's type.\<close>

definition type_as_message :: "string \<Rightarrow> TelemetryEvent option" where
  "type_as_message msg = Some \<lparr>type = msg, payload = [], timestamp = []\<rparr>"

text \<open>
  A run in which no connection ever opens: the first socket fails, and so does each of the
  five sockets the reconnect timers construct.
\<close>

definition failing_reconnects :: "action list" where
  "failing_reconnects =
     [CallConnect True, WsError, WsClose, TimerFires 1 True, WsClose, TimerFires 2 True, WsClose,
      TimerFires 3 True, WsClose, TimerFires 4 True, WsClose, TimerFires 5 True, WsError]"

section \<open>The rate limiter\<close>

text \<open>
  The REST error envelope's \<open>error_code\<close> values, as the API contract lists them.
\<close>

datatype error_code = SAFETY_VIOLATION | RATE_LIMIT_EXCEEDED | INVALID_LANGUAGE | SYSTEM_ERROR













section \<open>The request pipeline\<close>

text \<open>
  Modelled from the spec: the data model of the \<open>RequestPipeline\<close> (section 3 of the spec),
  which is backend code that is not among the sources. A stage's outcome is its success
  payload, a failure with kind and message, or a timeout. A retrieved context is an ordered
  sequence of source identifier, excerpt and relevance score.
\<close>

datatype Intent = scam_verify | scheme_lookup | general_question | offline_fallback

datatype 'a StageResult = Success 'a | StageFailure string string | StageTimeout

record SafetyVerdict =
  allowed :: bool
  reasons :: "string list"

type_synonym RetrievedContext = "(string \<times> string \<times> rat) list"

record GeneratedAnswer =
  answer_text :: string
  confidence :: rat
  sources :: "string list"

datatype State =
  Idle | SafetyCheck | IntentRouting | Retrieval | Generation | PostProcess
  | Complete | Blocked | Failed

text \<open>
  Modelled from the spec: the pipeline's events, each constructor an event type with its
  payload as the spec and the API contract give it. The event types are the ones the spec
  names for each stage: \<open>safety_check_start\<close> and \<open>safety_block\<close> for the safety check,
  \<open>intent_classified\<close> for routing, \<open>retrieval_start\<close>, \<open>generation_start\<close>, and
  \<open>response_complete\<close> for post-processing. The \<open>error\<close> event (stage name, error kind) is
  the constructor \<open>pipeline_error\<close>. Timestamps are left out: no stage reads them.
\<close>

datatype PipelineEvent =
    safety_check_start string string
  | safety_block string "string list"
  | intent_classified string Intent
  | retrieval_start Intent string
  | generation_start Intent nat
  | response_complete string rat nat "string list"
  | pipeline_error string string

text \<open>
  Modelled from the spec: the two capabilities of the \<open>ServiceGateway\<close> that the pipeline
  calls, each as the outcome of the call under the pipeline's timeout, and a log entry for
  every call made.
\<close>

record ServiceGateway =
  VectorRetriever :: "string \<Rightarrow> Intent \<Rightarrow> RetrievedContext StageResult"
  AnswerGenerator :: "string \<Rightarrow> Intent \<Rightarrow> RetrievedContext \<Rightarrow> GeneratedAnswer StageResult"

datatype GatewayCall =
    Retrieve string Intent
  | Generate string Intent RetrievedContext

text \<open>
  Modelled from the spec: what the spec leaves to the implementer is a parameter of the
  pipeline: the supported language tags, the safety check and the intent router (each may
  fail like any stage), the post-processing of the answer, and the wording of the canned
  rejection and of the fallback for a language.
\<close>

record PipelineConfig =
  supported_languages :: "string list"
  safety_check :: "string \<Rightarrow> string \<Rightarrow> SafetyVerdict StageResult"
  route_intent :: "string \<Rightarrow> string \<Rightarrow> Intent StageResult"
  post_process :: "GeneratedAnswer \<Rightarrow> GeneratedAnswer"
  rejection_text :: "string \<Rightarrow> string"
  fallback_text :: "string \<Rightarrow> string"

datatype PipelineFault = InvalidInput

datatype PipelineResponse =
    Answer Intent GeneratedAnswer
  | Rejection string
  | Fallback string

text \<open>
  A run as an observer sees it: the states it went through, the events it emitted, the
  gateway calls it made, all in order, and the result it returns.
\<close>

record pipeline_run =
  path :: "State list"
  emitted :: "PipelineEvent list"
  gateway_calls :: "GatewayCall list"
  returned :: "PipelineResponse option"

definition enter :: "State \<Rightarrow> pipeline_run \<Rightarrow> pipeline_run" where
  "enter s r = r\<lparr>path := path r @ [s]\<rparr>"

definition emit :: "PipelineEvent \<Rightarrow> pipeline_run \<Rightarrow> pipeline_run" where
  "emit ev r = r\<lparr>emitted := emitted r @ [ev]\<rparr>"

definition call :: "GatewayCall \<Rightarrow> pipeline_run \<Rightarrow> pipeline_run" where
  "call c r = r\<lparr>gateway_calls := gateway_calls r @ [c]\<rparr>"

definition needs_grounding :: "Intent \<Rightarrow> bool" where
  "needs_grounding i = (i = scam_verify \<or> i = scheme_lookup)"

definition failure_kind :: "'a StageResult \<Rightarrow> string option" where
  "failure_kind res =
     (case res of
        Success v \<Rightarrow> None
      | StageFailure kind message \<Rightarrow> Some kind
      | StageTimeout \<Rightarrow> Some ''StageTimeout'')"

text \<open>
  Modelled from the spec: the failure policy. The run moves to \<open>Failed\<close>, emits the \<open>error\<close>
  event with the stage name and the error kind, and returns the fallback for the language.
\<close>

definition stage_failed ::
  "PipelineConfig \<Rightarrow> string \<Rightarrow> string \<Rightarrow> string \<Rightarrow> pipeline_run \<Rightarrow> pipeline_run" where
  "stage_failed cfg language stage kind r =
     (emit (pipeline_error stage kind) (enter Failed r))
       \<lparr>returned := Some (Fallback (fallback_text cfg language))\<rparr>"

text \<open>
  Modelled from the spec: \<open>PostProcess\<close> adjusts the answer and emits \<open>response_complete\<close>
  (confidence, response length, sources) as the terminal success event.
\<close>

definition post_process_stage ::
  "PipelineConfig \<Rightarrow> string \<Rightarrow> Intent \<Rightarrow> GeneratedAnswer \<Rightarrow> pipeline_run \<Rightarrow> pipeline_run" where
  "post_process_stage cfg userId i answer r =
     (let final = post_process cfg answer in
      (enter Complete
        (emit (response_complete userId (confidence final) (length (answer_text final)) (sources final))
          (enter PostProcess r)))
        \<lparr>returned := Some (Answer i final)\<rparr>)"

text \<open>
  Modelled from the spec: \<open>Generation\<close> emits \<open>generation_start\<close> (intent, document count)
  and then calls the answer generator with the query, the intent and the context.
\<close>

definition generation_stage ::
  "ServiceGateway \<Rightarrow> PipelineConfig \<Rightarrow> string \<Rightarrow> string \<Rightarrow> string \<Rightarrow> Intent \<Rightarrow> RetrievedContext
     \<Rightarrow> pipeline_run \<Rightarrow> pipeline_run" where
  "generation_stage gw cfg query userId language i ctx r =
     (let r1 = call (Generate query i ctx)
                 (emit (generation_start i (length ctx)) (enter Generation r)) in
      case AnswerGenerator gw query i ctx of
        Success answer \<Rightarrow> post_process_stage cfg userId i answer r1
      | StageFailure kind message \<Rightarrow> stage_failed cfg language ''generation'' kind r1
      | StageTimeout \<Rightarrow> stage_failed cfg language ''generation'' ''StageTimeout'' r1)"

text \<open>
  Modelled from the spec: \<open>Retrieval\<close> runs only for the intents that need grounding; for
  the others the stage is skipped and the empty context goes to generation without a call.
\<close>

definition retrieval_stage ::
  "ServiceGateway \<Rightarrow> PipelineConfig \<Rightarrow> string \<Rightarrow> string \<Rightarrow> string \<Rightarrow> Intent
     \<Rightarrow> pipeline_run \<Rightarrow> pipeline_run" where
  "retrieval_stage gw cfg query userId language i r =
     (if needs_grounding i then
        (let r1 = call (Retrieve query i) (emit (retrieval_start i query) (enter Retrieval r)) in
         case VectorRetriever gw query i of
           Success ctx \<Rightarrow> generation_stage gw cfg query userId language i ctx r1
         | StageFailure kind message \<Rightarrow> stage_failed cfg language ''retrieval'' kind r1
         | StageTimeout \<Rightarrow> stage_failed cfg language ''retrieval'' ''StageTimeout'' r1)
      else generation_stage gw cfg query userId language i [] r)"

text \<open>Modelled from the spec: \<open>IntentRouting\<close> classifies and emits \<open>intent_classified\<close>.\<close>

definition intent_stage ::
  "ServiceGateway \<Rightarrow> PipelineConfig \<Rightarrow> string \<Rightarrow> string \<Rightarrow> string \<Rightarrow> pipeline_run \<Rightarrow> pipeline_run" where
  "intent_stage gw cfg query userId language r =
     (let r1 = enter IntentRouting r in
      case route_intent cfg query language of
        Success i \<Rightarrow>
          retrieval_stage gw cfg query userId language i (emit (intent_classified userId i) r1)
      | StageFailure kind message \<Rightarrow> stage_failed cfg language ''intent_routing'' kind r1
      | StageTimeout \<Rightarrow> stage_failed cfg language ''intent_routing'' ''StageTimeout'' r1)"

text \<open>
  Modelled from the spec: \<open>SafetyCheck\<close> emits \<open>safety_check_start\<close> and produces the
  verdict. A verdict that does not allow the query ends the run at once: the state becomes
  \<open>Blocked\<close>, \<open>safety_block\<close> carries the reasons, and the canned rejection is the result.
\<close>

definition safety_stage ::
  "ServiceGateway \<Rightarrow> PipelineConfig \<Rightarrow> string \<Rightarrow> string \<Rightarrow> string \<Rightarrow> pipeline_run \<Rightarrow> pipeline_run" where
  "safety_stage gw cfg query userId language r =
     (let r1 = emit (safety_check_start userId query) (enter SafetyCheck r) in
      case safety_check cfg query language of
        Success verdict \<Rightarrow>
          if allowed verdict then intent_stage gw cfg query userId language r1
          else (emit (safety_block userId (reasons verdict)) (enter Blocked r1))
                 \<lparr>returned := Some (Rejection (rejection_text cfg language))\<rparr>
      | StageFailure kind message \<Rightarrow> stage_failed cfg language ''safety_check'' kind r1
      | StageTimeout \<Rightarrow> stage_failed cfg language ''safety_check'' ''StageTimeout'' r1)"

text \<open>
  Modelled from the spec: \<open>run(query, userId, language)\<close>. An unsupported language fails
  with \<open>InvalidInput\<close> before any stage; otherwise the stages run in order from \<open>Idle\<close>.
\<close>

definition run ::
  "ServiceGateway \<Rightarrow> PipelineConfig \<Rightarrow> string \<Rightarrow> string \<Rightarrow> string \<Rightarrow> PipelineFault + pipeline_run" where
  "run gw cfg query userId language =
     (if language \<in> set (supported_languages cfg) then
        Inr (safety_stage gw cfg query userId language
               \<lparr>path = [Idle], emitted = [], gateway_calls = [], returned = None\<rparr>)
      else Inl InvalidInput)"

definition is_retrieval_start :: "PipelineEvent \<Rightarrow> bool" where
  "is_retrieval_start ev = (case ev of retrieval_start i q \<Rightarrow> True | _ \<Rightarrow> False)"

definition is_response_complete :: "PipelineEvent \<Rightarrow> bool" where
  "is_response_complete ev =
     (case ev of response_complete userId conf len srcs \<Rightarrow> True | _ \<Rightarrow> False)"

text \<open>
  A configuration and gateways for concrete runs: English and Hindi are supported, a query
  that mentions nothing is allowed unless it is the text \<open>blocked\<close>, every query is a general
  question; one gateway answers, the other times out on generation.
\<close>

definition sample_config :: PipelineConfig where
  "sample_config =
     \<lparr>supported_languages = [''en'', ''hi''],
      safety_check = (\<lambda>query language.
         if query = ''blocked'' then Success \<lparr>allowed = False, reasons = [''unsafe'']\<rparr>
         else Success \<lparr>allowed = True, reasons = []\<rparr>),
      route_intent = (\<lambda>query language.
         if query = ''lottery'' then Success scam_verify else Success general_question),
      post_process = (\<lambda>answer. answer),
      rejection_text = (\<lambda>language. ''rejected''),
      fallback_text = (\<lambda>language. ''fallback'')\<rparr>"

definition answering_gateway :: ServiceGateway where
  "answering_gateway =
     \<lparr>VectorRetriever = (\<lambda>query i. Success [(''doc-1'', ''excerpt'', 1)]),
      AnswerGenerator = (\<lambda>query i ctx.
         Success \<lparr>answer_text = ''ok'', confidence = 1, sources = map fst ctx\<rparr>)\<rparr>"

definition timing_out_gateway :: ServiceGateway where
  "timing_out_gateway =
     \<lparr>VectorRetriever = (\<lambda>query i. StageTimeout),
      AnswerGenerator = (\<lambda>query i ctx. StageTimeout)\<rparr>"

text \<open>
  The first stage of a run whose computation fails, with the error kind, read off the
  outcomes of the stages in their order: safety check, intent routing, retrieval (only for
  an intent that needs grounding), generation. \<open>None\<close> when no stage that runs fails.
\<close>

definition first_failure ::
  "ServiceGateway \<Rightarrow> PipelineConfig \<Rightarrow> string \<Rightarrow> string \<Rightarrow> (string \<times> string) option" where
  "first_failure gw cfg query language =
     (case safety_check cfg query language of
        Success verdict \<Rightarrow>
          if allowed verdict then
            (case route_intent cfg query language of
               Success i \<Rightarrow>
                 if needs_grounding i then
                   (case VectorRetriever gw query i of
                      Success ctx \<Rightarrow>
                        map_option (Pair ''generation'')
                          (failure_kind (AnswerGenerator gw query i ctx))
                    | StageFailure kind message \<Rightarrow> Some (''retrieval'', kind)
                    | StageTimeout \<Rightarrow> Some (''retrieval'', ''StageTimeout''))
                 else map_option (Pair ''generation'')
                        (failure_kind (AnswerGenerator gw query i []))
             | StageFailure kind message \<Rightarrow> Some (''intent_routing'', kind)
             | StageTimeout \<Rightarrow> Some (''intent_routing'', ''StageTimeout''))
          else None
      | StageFailure kind message \<Rightarrow> Some (''safety_check'', kind)
      | StageTimeout \<Rightarrow> Some (''safety_check'', ''StageTimeout''))"

text \<open>A run that has emitted no \<open>error\<close> event.\<close>

definition is_pipeline_error :: "PipelineEvent \<Rightarrow> bool" where
  "is_pipeline_error ev = (case ev of pipeline_error stage kind \<Rightarrow> True | _ \<Rightarrow> False)"

definition clean :: "pipeline_run \<Rightarrow> bool" where
  "clean r = (\<forall>ev \<in> set (emitted r). \<not> is_pipeline_error ev)"

text \<open>
  What the failure policy asks of a finished run, given the first failing stage \<open>ff\<close>: it
  has a result; when a stage failed the run ended in \<open>Failed\<close>, its last event is the \<open>error\<close>
  event of that stage and kind, and its result is the fallback for the language; when none
  failed it did not end in \<open>Failed\<close> and emitted no \<open>error\<close> event.
\<close>

definition recovered ::
  "PipelineConfig \<Rightarrow> string \<Rightarrow> (string \<times> string) option \<Rightarrow> pipeline_run \<Rightarrow> bool" where
  "recovered cfg language ff r =
     (returned r \<noteq> None
      \<and> (case ff of
            None \<Rightarrow> last (path r) \<noteq> Failed \<and> clean r
          | Some (stage, kind) \<Rightarrow>
              last (path r) = Failed \<and> last (emitted r) = pipeline_error stage kind
              \<and> returned r = Some (Fallback (fallback_text cfg language))))"

section \<open>Properties of the event buffer\<close>

lemma slice_neg_length: "length (slice_neg n xs) = min n (length xs)"
  by (simp add: slice_neg_def)

lemma slice_neg_append_slice:
  "slice_neg n (slice_neg n xs @ ys) = slice_neg n (xs @ ys)"
proof (cases "length xs \<le> n")
  case True
  then show ?thesis by (simp add: slice_neg_def)
next
  case False
  then have "length xs + length ys - n = (length xs - n) + length ys"
    by simp
  with False show ?thesis by (simp add: slice_neg_def add.commute)
qed

lemma foldl_appendEvent:
  "length prev \<le> 100 \<Longrightarrow> foldl appendEvent prev es = slice_neg 100 (prev @ es)"
proof (induction es rule: rev_induct)
  case Nil
  then show ?case by (simp add: slice_neg_def)
next
  case (snoc e es)
  have "foldl appendEvent prev (es @ [e]) = appendEvent (foldl appendEvent prev es) e"
    by simp
  also have "\<dots> = slice_neg 100 (foldl appendEvent prev es @ [e])"
    by (simp add: appendEvent_def)
  also have "\<dots> = slice_neg 100 (slice_neg 100 (prev @ es) @ [e])"
    by (simp only: snoc.IH [OF snoc.prems])
  also have "\<dots> = slice_neg 100 ((prev @ es) @ [e])"
    by (rule slice_neg_append_slice)
  finally show ?case by simp
qed

lemma slice_neg_suffix: "suffix (slice_neg n xs) xs"
  by (simp add: slice_neg_def suffix_drop)

lemma appendEvent_full:
  "length prev = 100 \<Longrightarrow> appendEvent prev e = tl prev @ [e]"
  by (cases prev) (simp_all add: appendEvent_def slice_neg_def)


lemma onmessage_events:
  "events (onmessage P st msg) =
     (case P msg of None \<Rightarrow> events st
      | Some d \<Rightarrow> if type d = ''heartbeat'' then events st else appendEvent (events st) d)"
  by (simp add: onmessage_def split: option.splits)

lemma application_events_Cons:
  "application_events P (m # ms) =
     (case P m of None \<Rightarrow> application_events P ms
      | Some d \<Rightarrow> if type d = ''heartbeat'' then application_events P ms
                  else d # application_events P ms)"
  by (simp add: application_events_def List.map_filter_simps split: option.splits)

lemma appendEvent_length: "length (appendEvent prev e) \<le> 100"
  by (simp add: appendEvent_def slice_neg_def)

lemma foldl_onmessage_events:
  "events (foldl (onmessage P) st msgs) = foldl appendEvent (events st) (application_events P msgs)"
proof (induction msgs arbitrary: st)
  case Nil
  show ?case by (simp add: application_events_def List.map_filter_simps)
next
  case (Cons m ms)
  show ?case
    by (simp add: Cons.IH onmessage_events application_events_Cons split: option.splits)
qed

lemma run_hook_messages:
  "run_hook opts P st (map WsMessage msgs) = foldl (onmessage P) st msgs"
  unfolding run_hook_def by (induction msgs arbitrary: st) simp_all

lemma hook_messages_events:
  "length (events st) \<le> 100 \<Longrightarrow>
   events (run_hook opts P st (map WsMessage msgs)) =
     slice_neg 100 (events st @ application_events P msgs)"
  by (simp add: run_hook_messages foldl_onmessage_events foldl_appendEvent)


lemma application_events_no_heartbeat:
  "e \<in> set (application_events P msgs) \<Longrightarrow> type e \<noteq> ''heartbeat''"
  by (simp add: application_events_def)

lemma init_hook_events: "events init_hook = []"
  by (simp add: init_hook_def)

text \<open>
  Claim C5, as amended. A message whose parsed type is \<open>heartbeat\<close> leaves the hook state
  untouched, so no heartbeat ever enters the buffer or displaces an event. The buffer holds
  the application events (the messages that parse and are not heartbeats) in arrival order,
  but only the last 100 of them: it equals the whole sequence exactly when that sequence has
  at most 100 events.
\<close>

theorem heartbeat_excluded_last_100:
  "(JSON_parse msg = Some data \<and> type data = ''heartbeat'' \<longrightarrow> onmessage JSON_parse st msg = st)
   \<and> events (run_hook opts JSON_parse init_hook (map WsMessage msgs)) =
       slice_neg 100 (application_events JSON_parse msgs)
   \<and> (\<forall>e \<in> set (events (run_hook opts JSON_parse init_hook (map WsMessage msgs))).
         type e \<noteq> ''heartbeat'')
   \<and> (length (application_events JSON_parse msgs) \<le> 100 \<longrightarrow>
         events (run_hook opts JSON_parse init_hook (map WsMessage msgs)) =
           application_events JSON_parse msgs)"
proof -
  have ev: "events (run_hook opts JSON_parse init_hook (map WsMessage msgs)) =
       slice_neg 100 (application_events JSON_parse msgs)"
    using hook_messages_events [of init_hook opts JSON_parse msgs]
    by (simp add: init_hook_events)
  have sub: "set (slice_neg 100 (application_events JSON_parse msgs))
       \<subseteq> set (application_events JSON_parse msgs)"
    by (simp add: slice_neg_def set_drop_subset)
  have hb: "JSON_parse msg = Some data \<and> type data = ''heartbeat'' \<longrightarrow>
       onmessage JSON_parse st msg = st"
    by (simp add: onmessage_def)
  have nohb: "\<forall>e \<in> set (events (run_hook opts JSON_parse init_hook (map WsMessage msgs))).
         type e \<noteq> ''heartbeat''"
    using sub application_events_no_heartbeat unfolding ev by blast
  have small: "length (application_events JSON_parse msgs) \<le> 100 \<longrightarrow>
         events (run_hook opts JSON_parse init_hook (map WsMessage msgs)) =
           application_events JSON_parse msgs"
    unfolding ev by (simp add: slice_neg_def)
  from hb ev nohb small show ?thesis by blast
qed

theorem heartbeat_excluded_last_100_witness:
  "type_as_message ''heartbeat'' = Some \<lparr>type = ''heartbeat'', payload = [], timestamp = []\<rparr>
   \<and> onmessage type_as_message init_hook ''heartbeat'' = init_hook
   \<and> events (run_hook default_options type_as_message init_hook
         (map WsMessage [''scam_detected'', ''heartbeat'', ''cache_hit''])) =
       [\<lparr>type = ''scam_detected'', payload = [], timestamp = []\<rparr>,
        \<lparr>type = ''cache_hit'', payload = [], timestamp = []\<rparr>]"
  using heartbeat_excluded_last_100 [of type_as_message "''heartbeat''"
      "\<lparr>type = ''heartbeat'', payload = [], timestamp = []\<rparr>" init_hook default_options
      "[''scam_detected'', ''heartbeat'', ''cache_hit'']"]
  by (simp add: type_as_message_def application_events_def List.map_filter_simps slice_neg_def)

text \<open>
  The claim as worded (the recorded events are exactly the non-heartbeat messages) fails
  once more than 100 application events have arrived: of 101 of them the buffer keeps 100.
\<close>

theorem heartbeat_exact_sequence_counterexample:
  "events (run_hook default_options type_as_message init_hook
      (map WsMessage (replicate 101 ''scam_detected'')))
   \<noteq> application_events type_as_message (replicate 101 ''scam_detected'')"
proof -
  have app: "application_events type_as_message (replicate 101 ''scam_detected'') =
      replicate 101 \<lparr>type = ''scam_detected'', payload = [], timestamp = []\<rparr>"
    by (simp add: application_events_def List.map_filter_def type_as_message_def)
  have "length (events (run_hook default_options type_as_message init_hook
      (map WsMessage (replicate 101 ''scam_detected'')))) = 100"
    using hook_messages_events [of init_hook default_options type_as_message
        "replicate 101 ''scam_detected''"]
    by (simp add: init_hook_events app slice_neg_length)
  moreover have "length (application_events type_as_message (replicate 101 ''scam_detected'')) = 101"
    by (simp add: app)
  ultimately show ?thesis by auto
qed

lemma run_hook_snoc:
  "run_hook opts P st (acts @ [a]) = step opts P (run_hook opts P st acts) a"
  by (simp add: run_hook_def)

lemma step_events_bounded:
  "length (events st) \<le> 100 \<Longrightarrow> length (events (step opts P st a)) \<le> 100"
  by (cases a)
     (simp_all add: connect_def onopen_def onclose_def setTimeout_def onerror_def
        onmessage_def disconnect_def clearEvents_def appendEvent_length Let_def
        split: option.splits)

lemma run_hook_events_bounded:
  "length (events st) \<le> 100 \<Longrightarrow> length (events (run_hook opts P st acts)) \<le> 100"
  by (induction acts rule: rev_induct) (simp_all add: run_hook_snoc step_events_bounded run_hook_def)

text \<open>
  Claim C6. Feeding any sequence of events through the \<open>setEvents\<close> updater from the empty
  buffer leaves exactly the last 100 of them: the buffer never holds more than 100 events
  and is a suffix of the arrival sequence. An event arriving at a full buffer evicts the
  oldest one (the head); below capacity nothing is evicted. The bound holds in every state
  the hook can reach, whatever the environment does, and after any sequence of messages
  the buffer of the hook is a suffix of the application events that arrived.
\<close>

theorem event_buffer_bounded_fifo:
  "foldl appendEvent [] es = slice_neg 100 es
   \<and> length (foldl appendEvent [] es) \<le> 100
   \<and> suffix (foldl appendEvent [] es) es
   \<and> (length prev = 100 \<longrightarrow>
        appendEvent prev e = tl prev @ [e] \<and> length (appendEvent prev e) = 100)
   \<and> (length prev < 100 \<longrightarrow> appendEvent prev e = prev @ [e])
   \<and> length (events (run_hook opts JSON_parse init_hook acts)) \<le> 100
   \<and> suffix (events (run_hook opts JSON_parse init_hook (map WsMessage msgs)))
        (application_events JSON_parse msgs)"
proof -
  have eq: "foldl appendEvent [] es = slice_neg 100 es"
    using foldl_appendEvent [of "[]" es] by simp
  have full: "length prev = 100 \<longrightarrow>
        appendEvent prev e = tl prev @ [e] \<and> length (appendEvent prev e) = 100"
    by (simp add: appendEvent_full)
  have room: "length prev < 100 \<longrightarrow> appendEvent prev e = prev @ [e]"
    by (simp add: appendEvent_def slice_neg_def)
  have reach: "length (events (run_hook opts JSON_parse init_hook acts)) \<le> 100"
    by (rule run_hook_events_bounded) (simp add: init_hook_events)
  have arrivals: "suffix (events (run_hook opts JSON_parse init_hook (map WsMessage msgs)))
        (application_events JSON_parse msgs)"
    using hook_messages_events [of init_hook opts JSON_parse msgs]
    by (simp add: init_hook_events slice_neg_suffix)
  show ?thesis
    unfolding eq using full room reach arrivals
    by (simp add: slice_neg_length slice_neg_suffix)
qed

theorem event_buffer_bounded_fifo_witness:
  "length (replicate 100 \<lparr>type = ''cache_hit'', payload = [], timestamp = []\<rparr>) = 100
   \<and> appendEvent (replicate 100 \<lparr>type = ''cache_hit'', payload = [], timestamp = []\<rparr>)
        \<lparr>type = ''scam_detected'', payload = [], timestamp = []\<rparr> =
      replicate 99 \<lparr>type = ''cache_hit'', payload = [], timestamp = []\<rparr> @
        [\<lparr>type = ''scam_detected'', payload = [], timestamp = []\<rparr>]
   \<and> length ([] :: TelemetryEvent list) < 100
   \<and> appendEvent [] \<lparr>type = ''cache_hit'', payload = [], timestamp = []\<rparr> =
        [\<lparr>type = ''cache_hit'', payload = [], timestamp = []\<rparr>]"
proof -
  have tl_rep: "tl (replicate 100 x) = replicate 99 x" for x :: TelemetryEvent
    by (simp add: tl_replicate)
  show ?thesis
    using event_buffer_bounded_fifo [of "[]"
        "replicate 100 \<lparr>type = ''cache_hit'', payload = [], timestamp = []\<rparr>"
        "\<lparr>type = ''scam_detected'', payload = [], timestamp = []\<rparr>"]
      event_buffer_bounded_fifo [of "[]" "[]" "\<lparr>type = ''cache_hit'', payload = [], timestamp = []\<rparr>"]
    by (simp add: tl_rep)
qed

section \<open>Bounded reconnection\<close>

lemma step_attempts_bounded:
  "reconnectAttemptsRef st \<le> maxReconnectAttempts opts \<Longrightarrow>
   reconnectAttemptsRef (step opts P st a) \<le> maxReconnectAttempts opts"
  by (cases a)
     (simp_all add: connect_def onopen_def onclose_def setTimeout_def onerror_def
        onmessage_def disconnect_def clearEvents_def Let_def split: option.splits)

lemma run_hook_attempts_bounded:
  "reconnectAttemptsRef st \<le> maxReconnectAttempts opts \<Longrightarrow>
   reconnectAttemptsRef (run_hook opts P st acts) \<le> maxReconnectAttempts opts"
  by (induction acts rule: rev_induct) (simp_all add: run_hook_snoc step_attempts_bounded run_hook_def)

lemma step_scheduled:
  "a \<noteq> WsOpen \<Longrightarrow>
   reconnectAttemptsRef st \<le> reconnectAttemptsRef (step opts P st a) \<and>
   scheduled (step opts P st a) =
     scheduled st @
       replicate (reconnectAttemptsRef (step opts P st a) - reconnectAttemptsRef st)
         (reconnectInterval opts)"
  by (cases a)
     (simp_all add: connect_def onclose_def setTimeout_def onerror_def
        onmessage_def disconnect_def clearEvents_def Let_def split: option.splits)

lemma run_hook_scheduled:
  "WsOpen \<notin> set acts \<Longrightarrow>
   reconnectAttemptsRef st \<le> reconnectAttemptsRef (run_hook opts P st acts) \<and>
   scheduled (run_hook opts P st acts) =
     scheduled st @
       replicate (reconnectAttemptsRef (run_hook opts P st acts) - reconnectAttemptsRef st)
         (reconnectInterval opts)"
proof (induction acts rule: rev_induct)
  case Nil
  show ?case by (simp add: run_hook_def)
next
  case (snoc a acts)
  let ?mid = "run_hook opts P st acts"
  from snoc.prems have a: "a \<noteq> WsOpen" and rest: "WsOpen \<notin> set acts" by auto
  note ih = snoc.IH [OF rest]
  note st = step_scheduled [OF a, of ?mid opts P]
  have le: "reconnectAttemptsRef st \<le> reconnectAttemptsRef (step opts P ?mid a)"
    using ih st by simp
  have "scheduled (step opts P ?mid a) =
      scheduled st @
        replicate (reconnectAttemptsRef ?mid - reconnectAttemptsRef st) (reconnectInterval opts) @
        replicate (reconnectAttemptsRef (step opts P ?mid a) - reconnectAttemptsRef ?mid)
          (reconnectInterval opts)"
    using ih st by simp
  also have "\<dots> = scheduled st @
        replicate (reconnectAttemptsRef (step opts P ?mid a) - reconnectAttemptsRef st)
          (reconnectInterval opts)"
    using ih st by (simp add: replicate_add [symmetric])
  finally show ?case using le by (simp add: run_hook_snoc)
qed

lemma step_reconnects:
  "reconnects (step opts P st a) + length (timers (step opts P st a)) + length (scheduled st)
   \<le> reconnects st + length (timers st) + length (scheduled (step opts P st a))"
proof (cases a)
  case (TimerFires t constructed)
  have "t \<in> set (timers st) \<Longrightarrow> Suc (length (removeAll t (timers st))) \<le> length (timers st)"
    using length_removeAll_less [of t "timers st"] by simp
  then show ?thesis using TimerFires by (simp add: connect_def)
next
  case CallDisconnect
  have "length (removeAll t (timers st)) \<le> length (timers st)" for t
    by (rule length_removeAll_less_eq)
  then show ?thesis using CallDisconnect
    by (simp add: disconnect_def Let_def split: option.splits)
qed (simp_all add: connect_def onopen_def onclose_def setTimeout_def onerror_def
        onmessage_def clearEvents_def Let_def split: option.splits)

lemma run_hook_reconnects:
  "reconnects (run_hook opts P st acts) + length (timers (run_hook opts P st acts))
     + length (scheduled st)
   \<le> reconnects st + length (timers st) + length (scheduled (run_hook opts P st acts))"
proof (induction acts rule: rev_induct)
  case Nil
  show ?case by (simp add: run_hook_def)
next
  case (snoc a acts)
  show ?case
    using snoc.IH step_reconnects [of opts P "run_hook opts P st acts" a]
    by (simp add: run_hook_snoc)
qed

lemma onclose_exhausted:
  "maxReconnectAttempts opts \<le> reconnectAttemptsRef st \<Longrightarrow>
   error (onclose opts st) = Some ''Max reconnection attempts reached''
   \<and> scheduled (onclose opts st) = scheduled st
   \<and> timers (onclose opts st) = timers st
   \<and> reconnectAttemptsRef (onclose opts st) = reconnectAttemptsRef st"
  by (simp add: onclose_def Let_def)

lemma onclose_retry:
  "reconnectAttemptsRef st < maxReconnectAttempts opts \<Longrightarrow>
   scheduled (onclose opts st) = scheduled st @ [reconnectInterval opts]
   \<and> reconnectAttemptsRef (onclose opts st) = Suc (reconnectAttemptsRef st)"
  by (simp add: onclose_def Let_def setTimeout_def)


lemma init_hook_fields:
  "reconnectAttemptsRef init_hook = 0" "scheduled init_hook = []" "timers init_hook = []"
  "reconnects init_hook = 0"
  by (simp_all add: init_hook_def)

text \<open>
  Claim C10. In every state the hook can reach, the attempt counter is at most
  \<open>maxReconnectAttempts\<close>. Over any stretch of actions without a successful open, the
  timers scheduled are at most \<open>maxReconnectAttempts\<close> minus the counter at its start, each
  with delay \<open>reconnectInterval\<close>, and the reconnect timers call \<open>connect\<close> at most that
  often plus once for each timer already pending; counted from the mount of the hook, the
  reconnect timers call \<open>connect\<close> at most \<open>maxReconnectAttempts\<close> times. A close at the maximum sets the
  error to \<open>Max reconnection attempts reached\<close> and schedules nothing; a close below it
  schedules one timer and counts one attempt; an open resets the counter to 0.
\<close>

theorem reconnection_bounded:
  "reconnectAttemptsRef (run_hook opts P init_hook before) \<le> maxReconnectAttempts opts
   \<and> (WsOpen \<notin> set acts \<longrightarrow>
        (\<exists>k. k \<le> maxReconnectAttempts opts - reconnectAttemptsRef (run_hook opts P init_hook before)
           \<and> scheduled (run_hook opts P (run_hook opts P init_hook before) acts) =
               scheduled (run_hook opts P init_hook before) @ replicate k (reconnectInterval opts))
        \<and> reconnects (run_hook opts P (run_hook opts P init_hook before) acts)
            \<le> reconnects (run_hook opts P init_hook before)
               + length (timers (run_hook opts P init_hook before))
               + (maxReconnectAttempts opts - reconnectAttemptsRef (run_hook opts P init_hook before))
        \<and> reconnects (run_hook opts P init_hook acts) \<le> maxReconnectAttempts opts
        \<and> length (scheduled (run_hook opts P init_hook acts)) \<le> maxReconnectAttempts opts)
   \<and> (reconnectAttemptsRef (run_hook opts P init_hook before) = maxReconnectAttempts opts \<longrightarrow>
        error (step opts P (run_hook opts P init_hook before) WsClose) =
          Some ''Max reconnection attempts reached''
        \<and> scheduled (step opts P (run_hook opts P init_hook before) WsClose) =
            scheduled (run_hook opts P init_hook before)
        \<and> timers (step opts P (run_hook opts P init_hook before) WsClose) =
            timers (run_hook opts P init_hook before))
   \<and> (reconnectAttemptsRef (run_hook opts P init_hook before) < maxReconnectAttempts opts \<longrightarrow>
        scheduled (step opts P (run_hook opts P init_hook before) WsClose) =
          scheduled (run_hook opts P init_hook before) @ [reconnectInterval opts]
        \<and> reconnectAttemptsRef (step opts P (run_hook opts P init_hook before) WsClose) =
            Suc (reconnectAttemptsRef (run_hook opts P init_hook before)))
   \<and> reconnectAttemptsRef (step opts P st WsOpen) = 0"
proof -
  let ?st0 = "run_hook opts P init_hook before"
  let ?m = "maxReconnectAttempts opts"
  have inv: "reconnectAttemptsRef ?st0 \<le> ?m"
    by (rule run_hook_attempts_bounded) (simp add: init_hook_fields)
  have seg: "\<exists>k. k \<le> ?m - reconnectAttemptsRef ?st0
           \<and> scheduled (run_hook opts P ?st0 acts) =
               scheduled ?st0 @ replicate k (reconnectInterval opts)"
    if nopen: "WsOpen \<notin> set acts"
  proof -
    let ?k = "reconnectAttemptsRef (run_hook opts P ?st0 acts) - reconnectAttemptsRef ?st0"
    have "reconnectAttemptsRef (run_hook opts P ?st0 acts) \<le> ?m"
      by (rule run_hook_attempts_bounded) (rule inv)
    then have "?k \<le> ?m - reconnectAttemptsRef ?st0" by simp
    moreover have "scheduled (run_hook opts P ?st0 acts) =
               scheduled ?st0 @ replicate ?k (reconnectInterval opts)"
      using run_hook_scheduled [OF nopen, of ?st0 opts P] by simp
    ultimately show ?thesis by blast
  qed
  have later: "reconnects (run_hook opts P ?st0 acts)
            \<le> reconnects ?st0 + length (timers ?st0) + (?m - reconnectAttemptsRef ?st0)"
    if nopen: "WsOpen \<notin> set acts"
  proof -
    let ?st1 = "run_hook opts P ?st0 acts"
    have a: "reconnectAttemptsRef ?st1 \<le> ?m"
      by (rule run_hook_attempts_bounded) (rule inv)
    have s: "length (scheduled ?st1) =
        length (scheduled ?st0) + (reconnectAttemptsRef ?st1 - reconnectAttemptsRef ?st0)"
      using run_hook_scheduled [OF nopen, of ?st0 opts P] by simp
    have r: "reconnects ?st1 + length (timers ?st1) + length (scheduled ?st0)
        \<le> reconnects ?st0 + length (timers ?st0) + length (scheduled ?st1)"
      by (rule run_hook_reconnects)
    from a s r show ?thesis by simp
  qed
  have fresh: "reconnects (run_hook opts P init_hook acts) \<le> ?m
        \<and> length (scheduled (run_hook opts P init_hook acts)) \<le> ?m"
    if nopen: "WsOpen \<notin> set acts"
  proof -
    let ?st1 = "run_hook opts P init_hook acts"
    have a: "reconnectAttemptsRef ?st1 \<le> ?m"
      by (rule run_hook_attempts_bounded) (simp add: init_hook_fields)
    have s: "length (scheduled ?st1) = reconnectAttemptsRef ?st1"
      using run_hook_scheduled [OF nopen, of init_hook opts P] by (simp add: init_hook_fields)
    have r: "reconnects ?st1 \<le> length (scheduled ?st1)"
      using run_hook_reconnects [of opts P init_hook acts] by (simp add: init_hook_fields)
    from a s r show ?thesis by simp
  qed
  have stop: "reconnectAttemptsRef ?st0 = ?m \<longrightarrow>
        error (step opts P ?st0 WsClose) = Some ''Max reconnection attempts reached''
        \<and> scheduled (step opts P ?st0 WsClose) = scheduled ?st0
        \<and> timers (step opts P ?st0 WsClose) = timers ?st0"
    using onclose_exhausted [of opts ?st0] by simp
  have retry: "reconnectAttemptsRef ?st0 < ?m \<longrightarrow>
        scheduled (step opts P ?st0 WsClose) = scheduled ?st0 @ [reconnectInterval opts]
        \<and> reconnectAttemptsRef (step opts P ?st0 WsClose) = Suc (reconnectAttemptsRef ?st0)"
    using onclose_retry [of ?st0 opts] by simp
  have reset: "reconnectAttemptsRef (step opts P st WsOpen) = 0"
    by (simp add: onopen_def)
  from inv seg later fresh stop retry reset show ?thesis by blast
qed

lemma failing_reconnects_run:
  "run_hook default_options type_as_message init_hook failing_reconnects =
     \<lparr>events = [], connected = False, error = Some ''WebSocket connection error'', wsRef = Some 5,
      reconnectAttemptsRef = 5, reconnectTimeoutRef = Some 5, timers = [], next_timer = 6,
      scheduled = [3000, 3000, 3000, 3000, 3000], sockets = 6, reconnects = 5\<rparr>"
  by (simp add: run_hook_def failing_reconnects_def default_options_def init_hook_def
      connect_def onerror_def onclose_def setTimeout_def Let_def)

theorem reconnection_bounded_witness:
  "WsOpen \<notin> set failing_reconnects
   \<and> reconnectAttemptsRef (run_hook default_options type_as_message init_hook failing_reconnects) =
       maxReconnectAttempts default_options
   \<and> reconnects (run_hook default_options type_as_message init_hook failing_reconnects) = 5
   \<and> scheduled (run_hook default_options type_as_message init_hook failing_reconnects) =
       replicate 5 3000
   \<and> error (step default_options type_as_message
         (run_hook default_options type_as_message init_hook failing_reconnects) WsClose) =
       Some ''Max reconnection attempts reached''
   \<and> scheduled (step default_options type_as_message
         (run_hook default_options type_as_message init_hook failing_reconnects) WsClose) =
       replicate 5 3000
   \<and> reconnectAttemptsRef init_hook < maxReconnectAttempts default_options
   \<and> scheduled (step default_options type_as_message init_hook WsClose) = [3000]"
proof -
  let ?st = "run_hook default_options type_as_message init_hook failing_reconnects"
  have five: "replicate 5 (3000::nat) = [3000, 3000, 3000, 3000, 3000]"
    by (simp add: numeral_eq_Suc)
  have opts: "maxReconnectAttempts default_options = 5" "reconnectInterval default_options = 3000"
    by (simp_all add: default_options_def)
  have nopen: "WsOpen \<notin> set failing_reconnects"
    by (simp add: failing_reconnects_def)
  have run_nil: "run_hook default_options type_as_message init_hook [] = init_hook"
    by (simp add: run_hook_def)
  have fields: "reconnectAttemptsRef ?st = 5" "reconnects ?st = 5" "scheduled ?st = replicate 5 3000"
    by (simp_all add: failing_reconnects_run five)
  have last_close: "error (step default_options type_as_message ?st WsClose) =
        Some ''Max reconnection attempts reached''
      \<and> scheduled (step default_options type_as_message ?st WsClose) = scheduled ?st"
    using reconnection_bounded [of default_options type_as_message failing_reconnects
        failing_reconnects init_hook]
    by (simp add: fields opts)
  have first_close: "scheduled (step default_options type_as_message init_hook WsClose) = [3000]"
    using reconnection_bounded [of default_options type_as_message "[]" "[]" init_hook]
    by (simp add: run_nil init_hook_fields opts)
  from nopen fields last_close first_close show ?thesis
    by (simp add: opts init_hook_fields)
qed

section \<open>The retry loop\<close>

lemma fetchWithRetry_loop_ok:
  "outcome (fetchWithRetry_loop net retries i slept) = Inr r \<Longrightarrow> ok r"
proof (induction net retries i slept rule: fetchWithRetry_loop.induct)
  case (1 net retries i slept)
  note unfold = fetchWithRetry_loop.simps [of net retries i slept]
  show ?case
  proof (cases "i < retries")
    case False
    with "1.prems" show ?thesis by (simp add: unfold)
  next
    case True
    show ?thesis
    proof (cases "try_block (net i) i retries")
      case (Return resp)
      with True "1.prems" have "r = resp" by (simp add: unfold)
      moreover from Return have "ok resp"
        by (auto simp: try_block_def split: fetch_result.splits if_splits)
      ultimately show ?thesis by simp
    next
      case (Throw e)
      show ?thesis
      proof (cases "i = retries - 1")
        case True
        have "fetchWithRetry_loop net retries i slept =
            \<lparr>outcome = Inl e, fetches = Suc i, sleeps = slept\<rparr>"
          unfolding unfold using Throw \<open>i < retries\<close> True by simp
        with "1.prems" show ?thesis by simp
      next
        case False
        with \<open>i < retries\<close> Throw "1.prems" "1.IH" show ?thesis by (simp add: unfold)
      qed
    next
      case Slept
      with True "1.prems" "1.IH" show ?thesis by (simp add: unfold)
    qed
  qed
qed

lemma fetchWithRetry_loop_fetches:
  "fetches (fetchWithRetry_loop net retries i slept) \<le> max i retries"
proof (induction net retries i slept rule: fetchWithRetry_loop.induct)
  case (1 net retries i slept)
  note unfold = fetchWithRetry_loop.simps [of net retries i slept]
  show ?case
  proof (cases "i < retries")
    case False
    then show ?thesis by (simp add: unfold)
  next
    case True
    show ?thesis
    proof (cases "try_block (net i) i retries")
      case (Return resp)
      with True show ?thesis by (simp add: unfold)
    next
      case (Throw e)
      show ?thesis
      proof (cases "i = retries - 1")
        case True
        have "fetchWithRetry_loop net retries i slept =
            \<lparr>outcome = Inl e, fetches = Suc i, sleeps = slept\<rparr>"
          unfolding unfold using Throw \<open>i < retries\<close> True by simp
        with \<open>i < retries\<close> show ?thesis by simp
      next
        case False
        with \<open>i < retries\<close> Throw "1.IH" show ?thesis by (simp add: unfold)
      qed
    next
      case Slept
      with True "1.IH" show ?thesis by (simp add: unfold)
    qed
  qed
qed

lemma client_error_is_retried:
  assumes "Suc i < retries" and "net i = Resolves resp"
    and "400 \<le> status resp" and "status resp < 500"
  shows "fetchWithRetry_loop net retries i slept =
           fetchWithRetry_loop net retries (Suc i) (slept @ [2 ^ i * 1000])"
proof -
  have "\<not> ok resp" using assms(3) by (simp add: ok_def)
  then have "try_block (net i) i retries =
      Throw (Error (''Client error: '' @ string_of_nat (status resp) @ '' '' @ statusText resp))"
    using assms by (simp add: try_block_def)
  moreover have "i < retries" "i \<noteq> retries - 1" using assms(1) by auto
  ultimately show ?thesis
    by (subst fetchWithRetry_loop.simps) simp
qed

text \<open>
  Claim C8 fails on the code. The comment says that client errors are not retried, but the
  error is thrown inside the \<open>try\<close> block and the \<open>catch\<close> of the same iteration swallows it
  unless the iteration is the last: after a 404 the client sleeps one second and issues a
  second request, whose 200 it returns.
\<close>

theorem fetchWithRetry_retries_client_error:
  "fetchWithRetry not_found_then_ok 3 =
     \<lparr>outcome = Inr \<lparr>status = 200, statusText = ''OK'', body = None\<rparr>,
      fetches = 2, sleeps = [1000]\<rparr>"
  by (simp add: fetchWithRetry_def fetchWithRetry_loop.simps not_found_then_ok_def try_block_def ok_def)

lemma processText_resolves:
  "\<exists>v. processText net json = Inr v"
  by (simp add: processText_def try_catch_def split: sum.splits)

section \<open>Streaming\<close>

lemma process_line_delivered:
  "delivered (process_line P cb st line) =
     delivered st @ delivered (process_line P cb \<lparr>delivered = [], console = []\<rparr> line)"
  by (simp add: process_line_def split: option.splits)

lemma process_lines_delivered:
  "delivered (foldl (process_line P cb) st ls) =
     delivered st @ delivered (foldl (process_line P cb) \<lparr>delivered = [], console = []\<rparr> ls)"
proof (induction ls rule: rev_induct)
  case Nil
  show ?case by simp
next
  case (snoc l ls)
  have "delivered (foldl (process_line P cb) st (ls @ [l])) =
      delivered (foldl (process_line P cb) st ls) @
        delivered (process_line P cb \<lparr>delivered = [], console = []\<rparr> l)"
    using process_line_delivered [of P cb "foldl (process_line P cb) st ls" l] by simp
  moreover have "delivered (foldl (process_line P cb) \<lparr>delivered = [], console = []\<rparr> (ls @ [l])) =
      delivered (foldl (process_line P cb) \<lparr>delivered = [], console = []\<rparr> ls) @
        delivered (process_line P cb \<lparr>delivered = [], console = []\<rparr> l)"
    using process_line_delivered
      [of P cb "foldl (process_line P cb) \<lparr>delivered = [], console = []\<rparr> ls" l] by simp
  ultimately show ?case using snoc.IH by simp
qed

lemma bad_json_skipped:
  assumes "prefix ''data: '' line" and "P (drop 6 line) = None"
  shows "process_line P cb st line =
           st\<lparr>console := console st @ [''Failed to parse SSE data: '' @ line]\<rparr>"
    and "delivered (foldl (process_line P cb) st (line # rest)) =
           delivered (foldl (process_line P cb) st rest)"
proof -
  show a: "process_line P cb st line =
           st\<lparr>console := console st @ [''Failed to parse SSE data: '' @ line]\<rparr>"
    using assms by (simp add: process_line_def)
  have "delivered (foldl (process_line P cb) st (line # rest)) =
      delivered (foldl (process_line P cb)
        (st\<lparr>console := console st @ [''Failed to parse SSE data: '' @ line]\<rparr>) rest)"
    by (simp add: a)
  also have "\<dots> = delivered st @
      delivered (foldl (process_line P cb) \<lparr>delivered = [], console = []\<rparr> rest)"
    by (subst process_lines_delivered) simp
  also have "\<dots> = delivered (foldl (process_line P cb) st rest)"
    by (subst (2) process_lines_delivered) simp
  finally show "delivered (foldl (process_line P cb) st (line # rest)) =
           delivered (foldl (process_line P cb) st rest)" .
qed

lemma read_loop_chunks:
  assumes "\<forall>j < length cs. rd (i + j) = Chunk (cs ! j)"
  shows "read_loop P cb rd i st =
           read_loop P cb rd (i + length cs)
             (foldl (process_line P cb) st (concat (map split_lines cs)))"
  using assms
proof (induction cs arbitrary: i st)
  case Nil
  show ?case by simp
next
  case (Cons c cs)
  from Cons.prems have here: "rd i = Chunk c" by force
  from Cons.prems have rest: "\<forall>j < length cs. rd (Suc i + j) = Chunk (cs ! j)" by force
  have "read_loop P cb rd i st =
      read_loop P cb rd (Suc i) (foldl (process_line P cb) st (split_lines c))"
    by (subst read_loop.simps) (simp add: here)
  also have "\<dots> = read_loop P cb rd (Suc i + length cs)
      (foldl (process_line P cb) (foldl (process_line P cb) st (split_lines c))
         (concat (map split_lines cs)))"
    by (rule Cons.IH [OF rest])
  finally show ?case by simp
qed

lemma read_loop_done:
  "rd i = Done \<Longrightarrow> read_loop P cb rd i st = Some (None, st)"
  by (subst read_loop.simps) simp

lemma read_loop_rejects:
  "rd i = ReadRejects e \<Longrightarrow> read_loop P cb rd i st = Some (Some e, st)"
  by (subst read_loop.simps) simp

lemma streamTextProcessing_cases:
  "streamTextProcessing settled P cb now = None
   \<or> (\<exists>st. streamTextProcessing settled P cb now = Some (None, st))
   \<or> (\<exists>e st. streamTextProcessing settled P cb now = Some (cb (error_event e now), st))"
  by (auto simp: streamTextProcessing_def split: option.splits prod.splits)


lemma stream_try_reader:
  "ok resp \<Longrightarrow> body resp = Some rd \<Longrightarrow>
   stream_try (Resolves resp) P cb = read_loop P cb rd 0 \<lparr>delivered = [], console = []\<rparr>"
  by (simp add: stream_try_def)

text \<open>
  Claim C9, as amended. When \<open>fetch\<close> rejects or the status is not ok, \<open>onEvent\<close> is called
  exactly once, with an event of type \<open>error\<close>, and the promise settles with what that call
  does. When a read fails after some chunks, the events of those chunks are delivered
  first and the error event last; when the body ends, the promise resolves with the events
  of its chunks. The promise never rejects provided \<open>onEvent\<close> returns normally when it is
  handed the error event. A \<open>data: \<close> line whose rest does not parse is logged and changes
  nothing else: the events delivered for the lines after it are the same as without it.
\<close>

theorem stream_failures_reported:
  "streamTextProcessing (Rejects e) P cb now =
     Some (cb (error_event e now),
           \<lparr>delivered = [error_event e now],
            console = [''Streaming error: '' @ message_or [] e]\<rparr>)
   \<and> (\<not> ok resp \<longrightarrow>
        streamTextProcessing (Resolves resp) P cb now =
          Some (cb (error_event (Error (''Streaming failed: '' @ string_of_nat (status resp))) now),
                \<lparr>delivered =
                   [error_event (Error (''Streaming failed: '' @ string_of_nat (status resp))) now],
                 console = [''Streaming error: '' @ ''Streaming failed: '' @
                              string_of_nat (status resp)]\<rparr>))
   \<and> StreamEvent.type (error_event e now) = ''error''
   \<and> (ok resp \<and> body resp = Some rd \<and> (\<forall>j < length cs. rd j = Chunk (cs ! j))
        \<and> rd (length cs) = ReadRejects e \<longrightarrow>
        (\<exists>st. streamTextProcessing (Resolves resp) P cb now = Some (cb (error_event e now), st)
           \<and> delivered st =
               delivered (foldl (process_line P cb) \<lparr>delivered = [], console = []\<rparr>
                            (concat (map split_lines cs))) @ [error_event e now]))
   \<and> (ok resp \<and> body resp = Some rd \<and> (\<forall>j < length cs. rd j = Chunk (cs ! j))
        \<and> rd (length cs) = Done \<longrightarrow>
        streamTextProcessing (Resolves resp) P cb now =
          Some (None, foldl (process_line P cb) \<lparr>delivered = [], console = []\<rparr>
                        (concat (map split_lines cs))))
   \<and> ((\<forall>e'. cb (error_event e' now) = None) \<longrightarrow>
        (\<forall>e' st. streamTextProcessing settled P cb now \<noteq> Some (Some e', st)))
   \<and> (prefix ''data: '' line \<and> P (drop 6 line) = None \<longrightarrow>
        process_line P cb st0 line =
          st0\<lparr>console := console st0 @ [''Failed to parse SSE data: '' @ line]\<rparr>
        \<and> delivered (foldl (process_line P cb) st0 (line # rest)) =
            delivered (foldl (process_line P cb) st0 rest))"
proof -
  let ?empty = "\<lparr>delivered = [], console = []\<rparr>"
  let ?all = "foldl (process_line P cb) ?empty (concat (map split_lines cs))"
  have net: "streamTextProcessing (Rejects e) P cb now =
     Some (cb (error_event e now),
           \<lparr>delivered = [error_event e now],
            console = [''Streaming error: '' @ message_or [] e]\<rparr>)"
    by (simp add: streamTextProcessing_def stream_try_def)
  have status: "\<not> ok resp \<longrightarrow>
        streamTextProcessing (Resolves resp) P cb now =
          Some (cb (error_event (Error (''Streaming failed: '' @ string_of_nat (status resp))) now),
                \<lparr>delivered =
                   [error_event (Error (''Streaming failed: '' @ string_of_nat (status resp))) now],
                 console = [''Streaming error: '' @ ''Streaming failed: '' @
                              string_of_nat (status resp)]\<rparr>)"
    by (simp add: streamTextProcessing_def stream_try_def message_or_def)
  have ty: "StreamEvent.type (error_event e now) = ''error''"
    by (simp add: error_event_def)
  have loop: "stream_try (Resolves resp) P cb = read_loop P cb rd (length cs) ?all"
    if "ok resp" "body resp = Some rd" "\<forall>j < length cs. rd j = Chunk (cs ! j)"
    using that read_loop_chunks [of cs rd 0 P cb ?empty] by (simp add: stream_try_reader)
  have broken: "ok resp \<and> body resp = Some rd \<and> (\<forall>j < length cs. rd j = Chunk (cs ! j))
        \<and> rd (length cs) = ReadRejects e \<longrightarrow>
        (\<exists>st. streamTextProcessing (Resolves resp) P cb now = Some (cb (error_event e now), st)
           \<and> delivered st = delivered ?all @ [error_event e now])"
    by (auto simp: streamTextProcessing_def loop read_loop_rejects)
  have finished: "ok resp \<and> body resp = Some rd \<and> (\<forall>j < length cs. rd j = Chunk (cs ! j))
        \<and> rd (length cs) = Done \<longrightarrow>
        streamTextProcessing (Resolves resp) P cb now = Some (None, ?all)"
    by (auto simp: streamTextProcessing_def loop read_loop_done)
  have never: "(\<forall>e'. cb (error_event e' now) = None) \<longrightarrow>
        (\<forall>e' st. streamTextProcessing settled P cb now \<noteq> Some (Some e', st))"
    using streamTextProcessing_cases [of settled P cb now] by auto
  have skip: "prefix ''data: '' line \<and> P (drop 6 line) = None \<longrightarrow>
        process_line P cb st0 line =
          st0\<lparr>console := console st0 @ [''Failed to parse SSE data: '' @ line]\<rparr>
        \<and> delivered (foldl (process_line P cb) st0 (line # rest)) =
            delivered (foldl (process_line P cb) st0 rest)"
    using bad_json_skipped(1) [of line P cb st0] bad_json_skipped(2) [of line P cb st0 rest]
    by blast
  from net status ty broken finished never skip show ?thesis by blast
qed

text \<open>
  The claim as worded (the promise never rejects) fails for a callback that throws: the
  call of \<open>onEvent\<close> in the outer \<open>catch\<close> is unguarded, so its exception rejects the promise.
\<close>

theorem stream_rejects_counterexample:
  "streamTextProcessing (Rejects (Error ''Failed to fetch'')) word_parse throwing_callback
     ''2026-01-31T21:00:00'' =
     Some (Some (Error ''callback failed''),
           \<lparr>delivered = [error_event (Error ''Failed to fetch'') ''2026-01-31T21:00:00''],
            console = [''Streaming error: Failed to fetch'']\<rparr>)"
  by (simp add: streamTextProcessing_def stream_try_def throwing_callback_def message_or_def)


lemma string_of_nat_503: "string_of_nat 503 = ''503''"
  by code_simp

lemma split_three_lines:
  "split_lines three_lines = [''data: start'', ''data: oops'', ''data: complete'']"
  by (simp add: three_lines_def)

lemma three_lines_run:
  "foldl (process_line word_parse quiet_callback) \<lparr>delivered = [], console = []\<rparr>
     (split_lines three_lines) =
   \<lparr>delivered =
      [bare_event ''start'', bare_event ''complete''],
    console = [''Failed to parse SSE data: data: oops'']\<rparr>"
  by (simp add: split_three_lines process_line_def word_parse_def quiet_callback_def)

theorem stream_failures_reported_witness:
  "\<not> ok \<lparr>status = 503, statusText = ''Service Unavailable'', body = None\<rparr>
   \<and> streamTextProcessing
        (Resolves \<lparr>status = 503, statusText = ''Service Unavailable'', body = None\<rparr>)
        word_parse quiet_callback ''t'' =
       Some (None,
             \<lparr>delivered = [error_event (Error ''Streaming failed: 503'') ''t''],
              console = [''Streaming error: Streaming failed: 503'']\<rparr>)
   \<and> ok \<lparr>status = 200, statusText = ''OK'', body = Some chunk_then_reset\<rparr>
   \<and> chunk_then_reset 0 = Chunk three_lines
   \<and> chunk_then_reset 1 = ReadRejects (Error ''network error'')
   \<and> (\<exists>st. streamTextProcessing
              (Resolves \<lparr>status = 200, statusText = ''OK'', body = Some chunk_then_reset\<rparr>)
              word_parse quiet_callback ''t'' = Some (None, st)
          \<and> map StreamEvent.type (delivered st) = [''start'', ''complete'', ''error''])
   \<and> chunk_then_done 1 = Done
   \<and> map StreamEvent.type (delivered (snd (the (streamTextProcessing
              (Resolves \<lparr>status = 200, statusText = ''OK'', body = Some chunk_then_done\<rparr>)
              word_parse quiet_callback ''t'')))) = [''start'', ''complete'']
   \<and> (\<forall>e'. quiet_callback (error_event e' ''t'') = None)
   \<and> (\<forall>e' st. streamTextProcessing (Rejects (Error ''Failed to fetch'')) word_parse quiet_callback ''t''
          \<noteq> Some (Some e', st))
   \<and> prefix ''data: '' ''data: oops''
   \<and> word_parse (drop 6 ''data: oops'') = None
   \<and> delivered (foldl (process_line word_parse quiet_callback) \<lparr>delivered = [], console = []\<rparr>
         [''data: oops'', ''data: complete'']) =
       delivered (foldl (process_line word_parse quiet_callback) \<lparr>delivered = [], console = []\<rparr>
         [''data: complete''])"
proof -
  let ?bad = "\<lparr>status = 503, statusText = ''Service Unavailable'', body = None\<rparr>"
  let ?reset = "\<lparr>status = 200, statusText = ''OK'', body = Some chunk_then_reset\<rparr>"
  let ?done = "\<lparr>status = 200, statusText = ''OK'', body = Some chunk_then_done\<rparr>"
  let ?empty = "\<lparr>delivered = [], console = []\<rparr>"
  have h1: "\<not> ok ?bad" "ok ?reset" "ok ?done"
    by (simp_all add: ok_def)
  have h2: "chunk_then_reset 0 = Chunk three_lines"
    "chunk_then_reset 1 = ReadRejects (Error ''network error'')"
    "chunk_then_done 0 = Chunk three_lines" "chunk_then_done 1 = Done"
    by (simp_all add: chunk_then_reset_def chunk_then_done_def)
  have h3: "\<forall>e'. quiet_callback (error_event e' ''t'') = None"
    by (simp add: quiet_callback_def)
  have h4: "prefix ''data: '' ''data: oops''" "word_parse (drop 6 ''data: oops'') = None"
    by (simp_all add: word_parse_def)
  have c1: "streamTextProcessing (Resolves ?bad) word_parse quiet_callback ''t'' =
       Some (None,
             \<lparr>delivered = [error_event (Error ''Streaming failed: 503'') ''t''],
              console = [''Streaming error: Streaming failed: 503'']\<rparr>)"
    using stream_failures_reported [of "Error ''x''" word_parse quiet_callback "''t''" ?bad
        chunk_then_reset "[]" "Rejects (Error ''x'')" "[]" ?empty "[]"] h1
    by (simp add: string_of_nat_503 quiet_callback_def)
  have c2: "\<exists>st. streamTextProcessing (Resolves ?reset) word_parse quiet_callback ''t'' = Some (None, st)
          \<and> map StreamEvent.type (delivered st) = [''start'', ''complete'', ''error'']"
    using stream_failures_reported [of "Error ''network error''" word_parse quiet_callback "''t''"
        ?reset chunk_then_reset "[three_lines]" "Rejects (Error ''x'')" "[]" ?empty "[]"] h1 h2
    by (auto simp: three_lines_run quiet_callback_def error_event_def bare_event_def)
  have c3: "map StreamEvent.type (delivered (snd (the (streamTextProcessing (Resolves ?done)
              word_parse quiet_callback ''t'')))) = [''start'', ''complete'']"
    using stream_failures_reported [of "Error ''x''" word_parse quiet_callback "''t''"
        ?done chunk_then_done "[three_lines]" "Rejects (Error ''x'')" "[]" ?empty "[]"] h1 h2
    by (simp add: three_lines_run bare_event_def)
  have c4: "\<forall>e' st. streamTextProcessing (Rejects (Error ''Failed to fetch'')) word_parse
          quiet_callback ''t'' \<noteq> Some (Some e', st)"
    using stream_failures_reported [of "Error ''x''" word_parse quiet_callback "''t''"
        ?bad chunk_then_done "[]" "Rejects (Error ''Failed to fetch'')" "[]" ?empty "[]"] h3
    by blast
  have c5: "delivered (foldl (process_line word_parse quiet_callback) ?empty
         [''data: oops'', ''data: complete'']) =
       delivered (foldl (process_line word_parse quiet_callback) ?empty [''data: complete''])"
    using stream_failures_reported [of "Error ''x''" word_parse quiet_callback "''t''"
        ?bad chunk_then_done "[]" "Rejects (Error ''x'')" "''data: oops''" ?empty
        "[''data: complete'']"] h4
    by blast
  from h1 h2 h3 h4 c1 c2 c3 c4 c5 show ?thesis by blast
qed

section \<open>The sliding window\<close>





























section \<open>Blocked queries, skipped retrieval, failures\<close>

lemma run_supported:
  "language \<in> set (supported_languages cfg) \<Longrightarrow>
   run gw cfg query userId language =
     Inr (safety_stage gw cfg query userId language
            \<lparr>path = [Idle], emitted = [], gateway_calls = [], returned = None\<rparr>)"
  by (simp add: run_def)

text \<open>
  Claim C2. When the safety check produces a verdict that does not allow the query, the
  run is exactly this: the states \<open>Idle\<close>, \<open>SafetyCheck\<close>, \<open>Blocked\<close>; the events
  \<open>safety_check_start\<close> and \<open>safety_block\<close> (with the verdict's reasons) and no other; no
  gateway call, so neither retrieval nor generation; and the canned rejection for the
  language as the result.
\<close>

theorem blocked_query_stops:
  assumes "language \<in> set (supported_languages cfg)"
    and "safety_check cfg query language = Success verdict"
    and "\<not> allowed verdict"
  shows "run gw cfg query userId language =
           Inr \<lparr>path = [Idle, SafetyCheck, Blocked],
                emitted = [safety_check_start userId query, safety_block userId (reasons verdict)],
                gateway_calls = [],
                returned = Some (Rejection (rejection_text cfg language))\<rparr>"
  using assms by (simp add: run_def safety_stage_def enter_def emit_def)

lemma sample_supported: "''en'' \<in> set (supported_languages sample_config)"
  by (simp add: sample_config_def)

theorem blocked_query_stops_witness:
  "''en'' \<in> set (supported_languages sample_config)
   \<and> safety_check sample_config ''blocked'' ''en'' = Success \<lparr>allowed = False, reasons = [''unsafe'']\<rparr>
   \<and> \<not> allowed \<lparr>allowed = False, reasons = [''unsafe'']\<rparr>
   \<and> run answering_gateway sample_config ''blocked'' ''user-1'' ''en'' =
       Inr \<lparr>path = [Idle, SafetyCheck, Blocked],
            emitted = [safety_check_start ''user-1'' ''blocked'', safety_block ''user-1'' [''unsafe'']],
            gateway_calls = [],
            returned = Some (Rejection ''rejected'')\<rparr>"
proof -
  have s: "safety_check sample_config ''blocked'' ''en'' =
      Success \<lparr>allowed = False, reasons = [''unsafe'']\<rparr>"
    by (simp add: sample_config_def)
  have r: "rejection_text sample_config ''en'' = ''rejected''"
    by (simp add: sample_config_def)
  show ?thesis
    using blocked_query_stops [OF sample_supported s, of answering_gateway "''user-1''"] s r
    by (simp add: sample_supported)
qed

lemma generation_stage_events:
  "emitted (generation_stage gw cfg query userId language i ctx r) =
     emitted r @ [generation_start i (length ctx)] @
       (case AnswerGenerator gw query i ctx of
          Success answer \<Rightarrow>
            [response_complete userId (confidence (post_process cfg answer))
               (length (answer_text (post_process cfg answer))) (sources (post_process cfg answer))]
        | StageFailure kind message \<Rightarrow> [pipeline_error ''generation'' kind]
        | StageTimeout \<Rightarrow> [pipeline_error ''generation'' ''StageTimeout''])"
  by (simp add: generation_stage_def post_process_stage_def stage_failed_def enter_def emit_def
      call_def Let_def split: StageResult.splits)

lemma generation_stage_calls:
  "gateway_calls (generation_stage gw cfg query userId language i ctx r) =
     gateway_calls r @ [Generate query i ctx]"
  by (simp add: generation_stage_def post_process_stage_def stage_failed_def enter_def emit_def
      call_def Let_def split: StageResult.splits)

lemma generation_stage_path:
  "path (generation_stage gw cfg query userId language i ctx r) =
     path r @ [Generation] @
       (case AnswerGenerator gw query i ctx of
          Success answer \<Rightarrow> [PostProcess, Complete]
        | StageFailure kind message \<Rightarrow> [Failed]
        | StageTimeout \<Rightarrow> [Failed])"
  by (simp add: generation_stage_def post_process_stage_def stage_failed_def enter_def emit_def
      call_def Let_def split: StageResult.splits)

lemma generation_stage_returned:
  "returned (generation_stage gw cfg query userId language i ctx r) =
     (case AnswerGenerator gw query i ctx of
        Success answer \<Rightarrow> Some (Answer i (post_process cfg answer))
      | StageFailure kind message \<Rightarrow> Some (Fallback (fallback_text cfg language))
      | StageTimeout \<Rightarrow> Some (Fallback (fallback_text cfg language)))"
  by (simp add: generation_stage_def post_process_stage_def stage_failed_def enter_def emit_def
      call_def Let_def split: StageResult.splits)

lemma ungrounded_run:
  assumes "language \<in> set (supported_languages cfg)"
    and "safety_check cfg query language = Success verdict" and "allowed verdict"
    and "route_intent cfg query language = Success i" and "\<not> needs_grounding i"
  shows "run gw cfg query userId language =
           Inr (generation_stage gw cfg query userId language i []
                  \<lparr>path = [Idle, SafetyCheck, IntentRouting],
                   emitted = [safety_check_start userId query, intent_classified userId i],
                   gateway_calls = [], returned = None\<rparr>)"
  using assms
  by (simp add: run_def safety_stage_def intent_stage_def retrieval_stage_def enter_def emit_def)


text \<open>
  Claim C4, as amended. For an allowed query classified \<open>general_question\<close> or
  \<open>offline_fallback\<close>, no \<open>retrieval_start\<close> event is emitted and the only gateway call is the
  generation call, made with the empty context. When that call succeeds,
  \<open>response_complete\<close> is the last event and the run ends in \<open>Complete\<close>; when it fails or
  times out, the last event is the \<open>error\<close> event of the generation stage and no
  \<open>response_complete\<close> is emitted.
\<close>

theorem general_question_skips_retrieval:
  assumes "language \<in> set (supported_languages cfg)"
    and "safety_check cfg query language = Success verdict" and "allowed verdict"
    and "route_intent cfg query language = Success i"
    and "i = general_question \<or> i = offline_fallback"
  shows "\<exists>r. run gw cfg query userId language = Inr r
     \<and> (\<forall>ev \<in> set (emitted r). \<not> is_retrieval_start ev)
     \<and> gateway_calls r = [Generate query i []]
     \<and> (\<forall>answer. AnswerGenerator gw query i [] = Success answer \<longrightarrow>
          last (emitted r) =
            response_complete userId (confidence (post_process cfg answer))
              (length (answer_text (post_process cfg answer))) (sources (post_process cfg answer))
          \<and> last (path r) = Complete
          \<and> returned r = Some (Answer i (post_process cfg answer)))
     \<and> (\<forall>kind. failure_kind (AnswerGenerator gw query i []) = Some kind \<longrightarrow>
          last (emitted r) = pipeline_error ''generation'' kind
          \<and> last (path r) = Failed
          \<and> (\<forall>ev \<in> set (emitted r). \<not> is_response_complete ev))"
proof -
  let ?r0 = "\<lparr>path = [Idle, SafetyCheck, IntentRouting],
              emitted = [safety_check_start userId query, intent_classified userId i],
              gateway_calls = [], returned = None\<rparr>"
  let ?r = "generation_stage gw cfg query userId language i [] ?r0"
  from assms(5) have ng: "\<not> needs_grounding i" by (auto simp: needs_grounding_def)
  have run: "run gw cfg query userId language = Inr ?r"
    by (rule ungrounded_run [OF assms(1-4) ng])
  have no_retr: "\<forall>ev \<in> set (emitted ?r). \<not> is_retrieval_start ev"
    by (auto simp: generation_stage_events is_retrieval_start_def split: StageResult.splits)
  have calls: "gateway_calls ?r = [Generate query i []]"
    by (simp add: generation_stage_calls)
  have good: "\<forall>answer. AnswerGenerator gw query i [] = Success answer \<longrightarrow>
          last (emitted ?r) =
            response_complete userId (confidence (post_process cfg answer))
              (length (answer_text (post_process cfg answer))) (sources (post_process cfg answer))
          \<and> last (path ?r) = Complete
          \<and> returned ?r = Some (Answer i (post_process cfg answer))"
    by (simp add: generation_stage_events generation_stage_path generation_stage_returned)
  have bad: "\<forall>kind. failure_kind (AnswerGenerator gw query i []) = Some kind \<longrightarrow>
          last (emitted ?r) = pipeline_error ''generation'' kind
          \<and> last (path ?r) = Failed
          \<and> (\<forall>ev \<in> set (emitted ?r). \<not> is_response_complete ev)"
    by (auto simp: generation_stage_events generation_stage_path failure_kind_def
        is_response_complete_def split: StageResult.splits)
  from run no_retr calls good bad show ?thesis by blast
qed


lemma sample_hello:
  "safety_check sample_config ''hello'' ''en'' = Success \<lparr>allowed = True, reasons = []\<rparr>"
  "route_intent sample_config ''hello'' ''en'' = Success general_question"
  "post_process sample_config = (\<lambda>answer. answer)"
  "fallback_text sample_config ''en'' = ''fallback''"
  by (simp_all add: sample_config_def)

lemma answering_run:
  "run answering_gateway sample_config ''hello'' ''user-1'' ''en'' =
     Inr \<lparr>path = [Idle, SafetyCheck, IntentRouting, Generation, PostProcess, Complete],
          emitted = [safety_check_start ''user-1'' ''hello'',
                     intent_classified ''user-1'' general_question,
                     generation_start general_question 0,
                     response_complete ''user-1'' 1 2 []],
          gateway_calls = [Generate ''hello'' general_question []],
          returned = Some (Answer general_question
                             \<lparr>answer_text = ''ok'', confidence = 1, sources = []\<rparr>)\<rparr>"
  by (simp add: run_def safety_stage_def intent_stage_def retrieval_stage_def
      generation_stage_def post_process_stage_def enter_def emit_def call_def Let_def
      needs_grounding_def sample_supported sample_hello answering_gateway_def)

lemma timing_out_run:
  "run timing_out_gateway sample_config ''hello'' ''user-1'' ''en'' =
     Inr \<lparr>path = [Idle, SafetyCheck, IntentRouting, Generation, Failed],
          emitted = [safety_check_start ''user-1'' ''hello'',
                     intent_classified ''user-1'' general_question,
                     generation_start general_question 0,
                     pipeline_error ''generation'' ''StageTimeout''],
          gateway_calls = [Generate ''hello'' general_question []],
          returned = Some (Fallback ''fallback'')\<rparr>"
  by (simp add: run_def safety_stage_def intent_stage_def retrieval_stage_def
      generation_stage_def stage_failed_def enter_def emit_def call_def Let_def
      needs_grounding_def sample_supported sample_hello timing_out_gateway_def)

theorem general_question_skips_retrieval_witness:
  "''en'' \<in> set (supported_languages sample_config)
   \<and> safety_check sample_config ''hello'' ''en'' = Success \<lparr>allowed = True, reasons = []\<rparr>
   \<and> allowed \<lparr>allowed = True, reasons = []\<rparr>
   \<and> route_intent sample_config ''hello'' ''en'' = Success general_question
   \<and> AnswerGenerator answering_gateway ''hello'' general_question [] =
       Success \<lparr>answer_text = ''ok'', confidence = 1, sources = []\<rparr>
   \<and> (\<exists>r. run answering_gateway sample_config ''hello'' ''user-1'' ''en'' = Inr r
        \<and> gateway_calls r = [Generate ''hello'' general_question []]
        \<and> last (emitted r) = response_complete ''user-1'' 1 2 []
        \<and> last (path r) = Complete)
   \<and> failure_kind (AnswerGenerator timing_out_gateway ''hello'' general_question []) =
       Some ''StageTimeout''
   \<and> (\<exists>r. run timing_out_gateway sample_config ''hello'' ''user-1'' ''en'' = Inr r
        \<and> last (emitted r) = pipeline_error ''generation'' ''StageTimeout''
        \<and> last (path r) = Failed)"
proof -
  have g: "AnswerGenerator answering_gateway ''hello'' general_question [] =
       Success \<lparr>answer_text = ''ok'', confidence = 1, sources = []\<rparr>"
    by (simp add: answering_gateway_def)
  have t: "failure_kind (AnswerGenerator timing_out_gateway ''hello'' general_question []) =
       Some ''StageTimeout''"
    by (simp add: timing_out_gateway_def failure_kind_def)
  have a: "allowed \<lparr>allowed = True, reasons = []\<rparr>" by simp
  have one: "\<exists>r. run answering_gateway sample_config ''hello'' ''user-1'' ''en'' = Inr r
        \<and> gateway_calls r = [Generate ''hello'' general_question []]
        \<and> last (emitted r) = response_complete ''user-1'' 1 2 []
        \<and> last (path r) = Complete"
    using general_question_skips_retrieval [OF sample_supported sample_hello(1) a sample_hello(2),
        of answering_gateway "''user-1''"] g
    by (auto simp: sample_hello(3))
  have two: "\<exists>r. run timing_out_gateway sample_config ''hello'' ''user-1'' ''en'' = Inr r
        \<and> last (emitted r) = pipeline_error ''generation'' ''StageTimeout''
        \<and> last (path r) = Failed"
    using general_question_skips_retrieval [OF sample_supported sample_hello(1) a sample_hello(2),
        of timing_out_gateway "''user-1''"] t
    by auto
  from sample_supported sample_hello(1,2) a g t one two show ?thesis by blast
qed

text \<open>
  The claim as worded (a \<open>response_complete\<close> event is produced for every such query) fails
  when generation times out: the failure policy ends the run with an \<open>error\<close> event.
\<close>

theorem general_question_without_response_complete_counterexample:
  "run timing_out_gateway sample_config ''hello'' ''user-1'' ''en'' =
     Inr \<lparr>path = [Idle, SafetyCheck, IntentRouting, Generation, Failed],
          emitted = [safety_check_start ''user-1'' ''hello'',
                     intent_classified ''user-1'' general_question,
                     generation_start general_question 0,
                     pipeline_error ''generation'' ''StageTimeout''],
          gateway_calls = [Generate ''hello'' general_question []],
          returned = Some (Fallback ''fallback'')\<rparr>
   \<and> filter is_response_complete
        [safety_check_start ''user-1'' ''hello'',
         intent_classified ''user-1'' general_question,
         generation_start general_question 0,
         pipeline_error ''generation'' ''StageTimeout''] = []"
  by (simp add: timing_out_run is_response_complete_def)

lemma stage_failed_fields:
  "last (path (stage_failed cfg language stage kind r)) = Failed"
  "last (emitted (stage_failed cfg language stage kind r)) = pipeline_error stage kind"
  "returned (stage_failed cfg language stage kind r) = Some (Fallback (fallback_text cfg language))"
  by (simp_all add: stage_failed_def enter_def emit_def)

lemma post_process_stage_fields:
  "last (path (post_process_stage cfg userId i answer r)) = Complete"
  "returned (post_process_stage cfg userId i answer r) = Some (Answer i (post_process cfg answer))"
  "set (emitted (post_process_stage cfg userId i answer r)) =
     insert (response_complete userId (confidence (post_process cfg answer))
               (length (answer_text (post_process cfg answer))) (sources (post_process cfg answer)))
       (set (emitted r))"
  by (simp_all add: post_process_stage_def enter_def emit_def Let_def)

lemma generation_recovered:
  "clean r \<Longrightarrow>
   recovered cfg language
     (map_option (Pair ''generation'') (failure_kind (AnswerGenerator gw query i ctx)))
     (generation_stage gw cfg query userId language i ctx r)"
  by (cases "AnswerGenerator gw query i ctx")
     (auto simp: recovered_def generation_stage_def failure_kind_def stage_failed_fields
        post_process_stage_fields clean_def is_pipeline_error_def call_def emit_def enter_def
        Let_def)

lemma retrieval_recovered:
  "clean r \<Longrightarrow>
   recovered cfg language
     (if needs_grounding i then
        (case VectorRetriever gw query i of
           Success ctx \<Rightarrow>
             map_option (Pair ''generation'') (failure_kind (AnswerGenerator gw query i ctx))
         | StageFailure kind message \<Rightarrow> Some (''retrieval'', kind)
         | StageTimeout \<Rightarrow> Some (''retrieval'', ''StageTimeout''))
      else map_option (Pair ''generation'') (failure_kind (AnswerGenerator gw query i [])))
     (retrieval_stage gw cfg query userId language i r)"
proof (cases "needs_grounding i")
  case False
  assume "clean r"
  then show ?thesis using False by (simp add: retrieval_stage_def generation_recovered)
next
  case True
  assume c: "clean r"
  let ?r1 = "call (Retrieve query i) (emit (retrieval_start i query) (enter Retrieval r))"
  have c1: "clean ?r1"
    using c by (auto simp: clean_def is_pipeline_error_def call_def emit_def enter_def)
  show ?thesis
  proof (cases "VectorRetriever gw query i")
    case (Success ctx)
    then show ?thesis
      using True generation_recovered [OF c1, of cfg language gw query i ctx userId]
      by (simp add: retrieval_stage_def)
  next
    case (StageFailure kind message)
    then show ?thesis using True
      by (simp add: retrieval_stage_def recovered_def stage_failed_fields)
  next
    case StageTimeout
    then show ?thesis using True
      by (simp add: retrieval_stage_def recovered_def stage_failed_fields)
  qed
qed

lemma run_recovered:
  assumes "language \<in> set (supported_languages cfg)"
  shows "\<exists>r. run gw cfg query userId language = Inr r
            \<and> recovered cfg language (first_failure gw cfg query language) r"
proof -
  let ?r0 = "\<lparr>path = [Idle], emitted = [], gateway_calls = [], returned = None\<rparr>"
  let ?r1 = "emit (safety_check_start userId query) (enter SafetyCheck ?r0)"
  let ?r2 = "enter IntentRouting ?r1"
  have "recovered cfg language (first_failure gw cfg query language)
          (safety_stage gw cfg query userId language ?r0)"
  proof (cases "safety_check cfg query language")
    case (StageFailure kind message)
    then show ?thesis
      by (simp add: safety_stage_def first_failure_def recovered_def stage_failed_fields)
  next
    case StageTimeout
    then show ?thesis
      by (simp add: safety_stage_def first_failure_def recovered_def stage_failed_fields)
  next
    case (Success verdict)
    show ?thesis
    proof (cases "allowed verdict")
      case False
      then show ?thesis using Success
        by (simp add: safety_stage_def first_failure_def recovered_def clean_def
            is_pipeline_error_def emit_def enter_def)
    next
      case True
      show ?thesis
      proof (cases "route_intent cfg query language")
        case (StageFailure kind message)
        then show ?thesis using Success True
          by (simp add: safety_stage_def intent_stage_def first_failure_def recovered_def
              stage_failed_fields)
      next
        case StageTimeout
        then show ?thesis using Success True
          by (simp add: safety_stage_def intent_stage_def first_failure_def recovered_def
              stage_failed_fields)
      next
        case (Success i)
        have "clean (emit (intent_classified userId i) ?r2)"
          by (simp add: clean_def is_pipeline_error_def emit_def enter_def)
        from retrieval_recovered [OF this, of cfg language i gw query userId]
        show ?thesis using Success \<open>safety_check cfg query language = Success verdict\<close> True
          by (simp add: safety_stage_def intent_stage_def first_failure_def)
      qed
    qed
  qed
  then show ?thesis using assms by (simp add: run_def)
qed


lemma processText_cases:
  "processText net json =
     (case outcome (fetchWithRetry net 3) of
        Inl e \<Rightarrow> Inr (failure_response e)
      | Inr resp \<Rightarrow> (case json resp of Inl e \<Rightarrow> Inr (failure_response e) | Inr v \<Rightarrow> Inr v))"
  by (simp add: processText_def try_catch_def split: sum.splits)

lemma failure_response_shape: "is_VoiceProcessResponse (failure_response e)"
  by (simp add: failure_response_def is_VoiceProcessResponse_def required_def optional_def
      is_boolean_def is_string_def is_number_def)

lemma always_ok_outcome:
  "outcome (fetchWithRetry always_ok 3) = Inr \<lparr>status = 200, statusText = ''OK'', body = None\<rparr>"
  by (simp add: fetchWithRetry_def fetchWithRetry_loop.simps always_ok_def try_block_def ok_def)

text \<open>
  Claim C7, as amended. A run in a supported language always returns a result, never a
  fault. When a stage fails or times out, the run ends in \<open>Failed\<close>, its last event is the
  \<open>error\<close> event naming that stage and the error kind, and the result is the fallback for
  the language; when no stage fails the run does not end in \<open>Failed\<close>. On the client,
  \<open>processText\<close> always resolves and never throws. When \<open>fetchWithRetry\<close> or the reading of
  the body throws, it resolves the failure response, which has the shape of
  \<open>VoiceProcessResponse\<close> with \<open>success = false\<close> and the error's message. Otherwise it
  resolves the value of the body unchecked, so the result has that shape exactly when the
  body has it.
\<close>

theorem failures_recovered:
  "(language \<in> set (supported_languages cfg) \<longrightarrow>
      (\<exists>r. run gw cfg query userId language = Inr r
         \<and> returned r \<noteq> None
         \<and> (\<forall>stage kind. first_failure gw cfg query language = Some (stage, kind) \<longrightarrow>
              last (path r) = Failed \<and> last (emitted r) = pipeline_error stage kind
              \<and> returned r = Some (Fallback (fallback_text cfg language)))
         \<and> (first_failure gw cfg query language = None \<longrightarrow> last (path r) \<noteq> Failed)))
   \<and> (\<exists>v. processText net json = Inr v)
   \<and> (outcome (fetchWithRetry net 3) = Inl e \<longrightarrow>
        processText net json = Inr (failure_response e))
   \<and> (outcome (fetchWithRetry net 3) = Inr resp \<and> json resp = Inl e \<longrightarrow>
        processText net json = Inr (failure_response e))
   \<and> (outcome (fetchWithRetry net 3) = Inr resp \<and> json resp = Inr v \<longrightarrow>
        processText net json = Inr v)
   \<and> is_VoiceProcessResponse (failure_response e)
   \<and> property ''success'' (failure_response e) = Some (JBool False)
   \<and> property ''error'' (failure_response e) =
       Some (JString (message_or ''Unknown error occurred'' e))
   \<and> (\<forall>w. processText net json = Inr w \<longrightarrow>
        is_VoiceProcessResponse w
        \<or> (\<exists>resp'. outcome (fetchWithRetry net 3) = Inr resp' \<and> json resp' = Inr w))"
proof -
  have pipeline: "language \<in> set (supported_languages cfg) \<longrightarrow>
      (\<exists>r. run gw cfg query userId language = Inr r
         \<and> returned r \<noteq> None
         \<and> (\<forall>stage kind. first_failure gw cfg query language = Some (stage, kind) \<longrightarrow>
              last (path r) = Failed \<and> last (emitted r) = pipeline_error stage kind
              \<and> returned r = Some (Fallback (fallback_text cfg language)))
         \<and> (first_failure gw cfg query language = None \<longrightarrow> last (path r) \<noteq> Failed))"
  proof
    assume "language \<in> set (supported_languages cfg)"
    from run_recovered [OF this, of gw query userId]
    obtain r where r: "run gw cfg query userId language = Inr r"
      and rec: "recovered cfg language (first_failure gw cfg query language) r" by blast
    from rec have "returned r \<noteq> None
         \<and> (\<forall>stage kind. first_failure gw cfg query language = Some (stage, kind) \<longrightarrow>
              last (path r) = Failed \<and> last (emitted r) = pipeline_error stage kind
              \<and> returned r = Some (Fallback (fallback_text cfg language)))
         \<and> (first_failure gw cfg query language = None \<longrightarrow> last (path r) \<noteq> Failed)"
      unfolding recovered_def by (auto split: option.splits)
    with r show "\<exists>r. run gw cfg query userId language = Inr r
         \<and> returned r \<noteq> None
         \<and> (\<forall>stage kind. first_failure gw cfg query language = Some (stage, kind) \<longrightarrow>
              last (path r) = Failed \<and> last (emitted r) = pipeline_error stage kind
              \<and> returned r = Some (Fallback (fallback_text cfg language)))
         \<and> (first_failure gw cfg query language = None \<longrightarrow> last (path r) \<noteq> Failed)"
      by (intro exI [of _ r]) simp
  qed
  have resolves: "\<exists>v. processText net json = Inr v"
    by (simp add: processText_cases split: sum.splits)
  have c1: "outcome (fetchWithRetry net 3) = Inl e \<longrightarrow>
        processText net json = Inr (failure_response e)"
    by (simp add: processText_cases)
  have c2: "outcome (fetchWithRetry net 3) = Inr resp \<and> json resp = Inl e \<longrightarrow>
        processText net json = Inr (failure_response e)"
    by (simp add: processText_cases)
  have c3: "outcome (fetchWithRetry net 3) = Inr resp \<and> json resp = Inr v \<longrightarrow>
        processText net json = Inr v"
    by (simp add: processText_cases)
  have shape: "is_VoiceProcessResponse (failure_response e)"
    by (rule failure_response_shape)
  have props: "property ''success'' (failure_response e) = Some (JBool False)"
    "property ''error'' (failure_response e) =
       Some (JString (message_or ''Unknown error occurred'' e))"
    by (simp_all add: failure_response_def property_def)
  have origin: "\<forall>w. processText net json = Inr w \<longrightarrow>
        is_VoiceProcessResponse w
        \<or> (\<exists>resp'. outcome (fetchWithRetry net 3) = Inr resp' \<and> json resp' = Inr w)"
    by (auto simp: processText_cases failure_response_shape split: sum.splits)
  from pipeline resolves c1 c2 c3 shape props origin show ?thesis by blast
qed

text \<open>
  The claim as worded (\<open>processText\<close> always resolves to a well-formed response object)
  fails when the server answers 200 with the body \<open>null\<close>: the client resolves \<open>null\<close>.
\<close>

theorem processText_resolves_null_counterexample:
  "processText always_ok null_json = Inr JNull \<and> \<not> is_VoiceProcessResponse JNull"
  by (simp add: processText_cases always_ok_outcome null_json_def is_VoiceProcessResponse_def)

lemma unreachable_outcome:
  "fetchWithRetry unreachable 3 =
     \<lparr>outcome = Inl (Error ''Failed to fetch''), fetches = 3, sleeps = [1000, 2000]\<rparr>"
  by (simp add: fetchWithRetry_def fetchWithRetry_loop.simps unreachable_def try_block_def)

lemma not_found_then_ok_outcome:
  "outcome (fetchWithRetry not_found_then_ok 3) =
     Inr \<lparr>status = 200, statusText = ''OK'', body = None\<rparr>"
  by (simp add: fetchWithRetry_def fetchWithRetry_loop.simps not_found_then_ok_def try_block_def
      ok_def)

lemma timing_out_first_failure:
  "first_failure timing_out_gateway sample_config ''hello'' ''en'' =
     Some (''generation'', ''StageTimeout'')"
  by (simp add: first_failure_def sample_config_def timing_out_gateway_def needs_grounding_def
      failure_kind_def)

theorem failures_recovered_witness:
  "''en'' \<in> set (supported_languages sample_config)
   \<and> first_failure timing_out_gateway sample_config ''hello'' ''en'' =
       Some (''generation'', ''StageTimeout'')
   \<and> (\<exists>r. run timing_out_gateway sample_config ''hello'' ''user-1'' ''en'' = Inr r
        \<and> last (path r) = Failed
        \<and> last (emitted r) = pipeline_error ''generation'' ''StageTimeout''
        \<and> returned r = Some (Fallback ''fallback''))
   \<and> outcome (fetchWithRetry unreachable 3) = Inl (Error ''Failed to fetch'')
   \<and> processText unreachable not_json = Inr (failure_response (Error ''Failed to fetch''))
   \<and> outcome (fetchWithRetry not_found_then_ok 3) =
       Inr \<lparr>status = 200, statusText = ''OK'', body = None\<rparr>
   \<and> not_json \<lparr>status = 200, statusText = ''OK'', body = None\<rparr> =
       Inl (Error ''Unexpected end of JSON input'')
   \<and> processText not_found_then_ok not_json =
       Inr (failure_response (Error ''Unexpected end of JSON input''))
   \<and> processText not_found_then_ok answer_json =
       answer_json \<lparr>status = 200, statusText = ''OK'', body = None\<rparr>
   \<and> property ''success'' (failure_response (Error ''Failed to fetch'')) = Some (JBool False)
   \<and> property ''error'' (failure_response (Error ''Failed to fetch'')) =
       Some (JString ''Failed to fetch'')
   \<and> is_VoiceProcessResponse (failure_response (Error ''Failed to fetch''))"
proof -
  let ?ok = "\<lparr>status = 200, statusText = ''OK'', body = None\<rparr>"
  have en: "''en'' \<in> set (supported_languages sample_config)"
    "fallback_text sample_config ''en'' = ''fallback''"
    by (simp_all add: sample_config_def)
  have nj: "not_json ?ok = Inl (Error ''Unexpected end of JSON input'')"
    by (simp add: not_json_def)
  obtain v where aj: "answer_json ?ok = Inr v"
    by (simp add: answer_json_def)
  have un: "outcome (fetchWithRetry unreachable 3) = Inl (Error ''Failed to fetch'')"
    by (simp add: unreachable_outcome)
  have p: "\<exists>r. run timing_out_gateway sample_config ''hello'' ''user-1'' ''en'' = Inr r
        \<and> last (path r) = Failed
        \<and> last (emitted r) = pipeline_error ''generation'' ''StageTimeout''
        \<and> returned r = Some (Fallback ''fallback'')"
    using failures_recovered [of "''en''" sample_config timing_out_gateway "''hello''" "''user-1''"
        unreachable not_json "Error ''Failed to fetch''" ?ok v]
      en timing_out_first_failure
    by auto
  have q1: "processText unreachable not_json = Inr (failure_response (Error ''Failed to fetch''))"
    using failures_recovered [of "''en''" sample_config timing_out_gateway "''hello''" "''user-1''"
        unreachable not_json "Error ''Failed to fetch''" ?ok v] un
    by blast
  have q2: "processText not_found_then_ok not_json =
       Inr (failure_response (Error ''Unexpected end of JSON input''))"
    using failures_recovered [of "''en''" sample_config timing_out_gateway "''hello''" "''user-1''"
        not_found_then_ok not_json "Error ''Unexpected end of JSON input''" ?ok v]
      not_found_then_ok_outcome nj
    by blast
  have q3: "processText not_found_then_ok answer_json = answer_json ?ok"
    using failures_recovered [of "''en''" sample_config timing_out_gateway "''hello''" "''user-1''"
        not_found_then_ok answer_json "Error ''x''" ?ok v]
      not_found_then_ok_outcome aj
    by simp
  have q4: "property ''success'' (failure_response (Error ''Failed to fetch'')) = Some (JBool False)"
    "property ''error'' (failure_response (Error ''Failed to fetch'')) =
       Some (JString ''Failed to fetch'')"
    "is_VoiceProcessResponse (failure_response (Error ''Failed to fetch''))"
    using failures_recovered [of "''en''" sample_config timing_out_gateway "''hello''" "''user-1''"
        unreachable not_json "Error ''Failed to fetch''" ?ok v]
    by (simp_all add: message_or_def)
  from en(1) timing_out_first_failure p un q1 not_found_then_ok_outcome nj q2 q3 q4
  show ?thesis by blast
qed

end
